theory Spec2Isabelle
  imports Main "HOL-Library.Sublist"
begin

section \<open>Values, strings and numbers of the host language\<close>

text \<open>
  The builder of \<^verbatim>\<open>src/query-builder/SelectQueryBuilder.ts\<close> is embedded as HOL functions.
  Strings are \<^typ>\<open>string\<close>. The numeric slots of the expression map (limit, offset, skip,
  take, lock version) hold integers: the setters reject NaN, and fractional or
  exponent-formatted numbers are outside the model. \<^verbatim>\<open>undefined\<close> is \<open>None\<close>.
\<close>

text \<open>\<^verbatim>\<open>Array.prototype.join\<close> on strings.\<close>

fun join :: "string \<Rightarrow> string list \<Rightarrow> string" where
  "join sep [] = []"
| "join sep [x] = x"
| "join sep (x # y # ys) = x @ sep @ join sep (y # ys)"

text \<open>Decimal rendering of a number, as string concatenation \<^verbatim>\<open>"" + n\<close> produces it.\<close>

definition digitChar :: "nat \<Rightarrow> char" where
  "digitChar d = ''0123456789'' ! d"

fun showNat :: "nat \<Rightarrow> string" where
  "showNat n = (if n < 10 then [digitChar n] else showNat (n div 10) @ [digitChar (n mod 10)])"

declare showNat.simps [simp del]

definition numToString :: "int \<Rightarrow> string" where
  "numToString i = (if i < 0 then CHR ''-'' # showNat (nat (- i)) else showNat (nat i))"

text \<open>Truthiness of an optional number: \<^verbatim>\<open>undefined\<close> and \<open>0\<close> are falsy.\<close>

fun truthyNum :: "int option \<Rightarrow> bool" where
  "truthyNum None = False"
| "truthyNum (Some n) = (n \<noteq> 0)"

text \<open>
  Values found in raw rows, entities and parameters. \<open>JDate\<close> carries the value of
  \<^verbatim>\<open>getTime()\<close>.
\<close>

datatype jsval =
    JUndefined
  | JNull
  | JBool bool
  | JNumber int
  | JString string
  | JDate int
  | JArray "jsval list"

fun truthy :: "jsval \<Rightarrow> bool" where
  "truthy JUndefined = False"
| "truthy JNull = False"
| "truthy (JBool b) = b"
| "truthy (JNumber n) = (n \<noteq> 0)"
| "truthy (JString s) = (s \<noteq> [])"
| "truthy (JDate t) = True"
| "truthy (JArray xs) = True"

text \<open>An object literal: property names with their values, in insertion order.\<close>

type_synonym objectLiteral = "(string \<times> jsval) list"

definition getProp :: "objectLiteral \<Rightarrow> string \<Rightarrow> jsval" where
  "getProp obj k = (case map_of obj k of None \<Rightarrow> JUndefined | Some v \<Rightarrow> v)"

definition setProp :: "objectLiteral \<Rightarrow> string \<Rightarrow> jsval \<Rightarrow> objectLiteral" where
  "setProp obj k v =
     (if k \<in> set (map fst obj) then map (\<lambda>(k', v'). if k' = k then (k', v) else (k', v')) obj
      else obj @ [(k, v)])"

section \<open>Errors\<close>

text \<open>
  Every \<^verbatim>\<open>throw\<close> of the source is a constructor. \<open>TypeError\<close> is the runtime error of
  reading a property of \<^verbatim>\<open>undefined\<close> behind a non-null assertion. \<open>CollaboratorError\<close> is
  an error raised by code outside this file: the driver, the query runner, the result
  cache, the loaders and the compilers inherited from the parent class.
\<close>

datatype error =
    OptimisticLockCanNotBeUsedError
  | PessimisticLockTransactionRequiredError
  | NoVersionOrUpdateDateColumnError string
  | OptimisticLockVersionMismatchError string jsval jsval
  | OffsetWithoutLimitNotSupportedError
  | LockNotSupportedOnGivenDriverError
  | EntityNotFoundError
  | TypeORMError string
  | TypeError
  | CollaboratorError string

section \<open>The data model\<close>

text \<open>
  The driver classes are told apart by \<^verbatim>\<open>instanceof\<close>; the datatype lists the outcomes
  the source distinguishes, \<open>OtherDriver\<close> standing for every remaining one.
\<close>

datatype driver =
    SqlServerDriver
  | MysqlDriver
  | AuroraDataApiDriver
  | SapDriver
  | AbstractSqliteDriver
  | OracleDriver
  | PostgresDriver
  | CockroachDriver
  | OtherDriver

datatype lockMode =
    Optimistic
  | PessimisticRead
  | PessimisticWrite
  | DirtyRead
  | PessimisticPartialWrite
  | PessimisticWriteOrFail
  | ForNoKeyUpdate

datatype lockVersion = VersionNumber int | VersionDate int

fun truthyVersion :: "lockVersion option \<Rightarrow> bool" where
  "truthyVersion None = False"
| "truthyVersion (Some (VersionNumber n)) = (n \<noteq> 0)"
| "truthyVersion (Some (VersionDate t)) = True"

datatype conditionType = Simple | And | Or

record condition =
  condType :: conditionType
  condText :: string

record selectQuery =
  selection :: string
  aliasName :: "string option"
  virtual :: bool

datatype orderByValue = OrderOnly string | OrderNulls string string

type_synonym orderByCondition = "(string \<times> orderByValue) list"

record columnMetadata =
  databaseName :: string
  propertyPath :: string

record entityMetadata =
  metaName :: string
  primaryColumns :: "columnMetadata list"
  hasMultiplePrimaryKeys :: bool
  versionColumn :: "columnMetadata option"
  updateDateColumn :: "columnMetadata option"

record Alias =
  name :: string
  hasMetadata :: bool
  tablePath :: "string option"
  aliasSubQuery :: "string option"

record joinAttribute =
  direction :: string
  joinAlias :: Alias
  joinCondition :: "string option"

text \<open>
  The expression map, with the fields this file reads or writes. Joins and the deferred
  relation-id and relation-count attributes are kept as lists; the compilers below only
  ask for their length.
\<close>

record expressionMap =
  mainAlias :: "Alias option"
  selects :: "selectQuery list"
  joinAttributes :: "joinAttribute list"
  relationIdAttributes :: "string list"
  relationCountAttributes :: "string list"
  wheres :: "condition list"
  havings :: "condition list"
  groupBys :: "string list"
  orderBys :: orderByCondition
  limit :: "int option"
  offset :: "int option"
  skip :: "int option"
  takeCount :: "int option"
  lockMode :: "lockMode option"
  lockVersion :: "lockVersion option"
  lockTables :: "string list option"
  subQuery :: bool
  queryEntity :: bool
  useTransaction :: bool
  callListeners :: bool
  cache :: bool
  cacheId :: "string option"
  cacheDuration :: "int option"
  parameters :: objectLiteral
  nativeParameters :: objectLiteral
  options :: "string list"
  extraAppendedAndWhereCondition :: string

record cacheOptions =
  alwaysEnabled :: bool
  ignoreErrors :: bool
  duration :: "int option"

record queryResultCacheOptions =
  cachedIdentifier :: "string option"
  cachedQuery :: string
  cachedDuration :: int
  cachedResult :: string

type_synonym row = objectLiteral

section \<open>Collaborators\<close>

text \<open>
  What the builder calls and this file does not define is a field of \<open>connection\<close>:
  the driver and its text helpers (\<open>escape\<close>, \<open>buildAlias\<close>), the compilers and helpers
  of the parent class (\<open>createComment\<close>, \<open>createWhereExpression\<close>,
  \<open>replacePropertyNames\<close>, \<open>escapeQueryWithParameters\<close>), the accessors of the alias and
  metadata classes, the serialiser, and the outcomes of the query runner, the result
  cache and the hydration pipeline. Two compilers of this file assemble their text from
  relation and column metadata that lies outside it: the text of \<open>createJoinExpression\<close>
  and the text that \<open>createSelectExpression\<close> builds after its check are fields as well.
  An outcome takes the events that happened so far, so that a collaborator may answer
  differently each time; \<open>Inl\<close> carries the message of an error it raises.
\<close>

datatype event =
    CreateQueryRunner
  | StartTransaction
  | CommitTransaction
  | RollbackTransaction
  | Release
  | Query string "jsval list"
  | GetFromCache "string option" string int
  | StoreInCache "string option" string int string "queryResultCacheOptions option"
  | LoadRelationIds
  | LoadRelationCounts
  | LoadRelationSeparate
  | Broadcast

record connection =
  driver :: driver
  escape :: "string \<Rightarrow> string"
  buildAlias :: "string \<Rightarrow> string \<Rightarrow> string"
  replacePropertyNames :: "expressionMap \<Rightarrow> string \<Rightarrow> string"
  createComment :: "expressionMap \<Rightarrow> string"
  selectFromText :: "expressionMap \<Rightarrow> string + string"
  createJoinExpression :: "expressionMap \<Rightarrow> string + string"
  createWhereExpression :: "expressionMap \<Rightarrow> string + string"
  allOrderBysOf :: "orderByCondition \<Rightarrow> Alias option \<Rightarrow> string list \<Rightarrow> orderByCondition"
  metadataOf :: "Alias \<Rightarrow> string + entityMetadata"
  columnDatabaseName :: "expressionMap \<Rightarrow> string \<Rightarrow> string \<Rightarrow> string + string"
  escapeQueryWithParameters ::
    "string \<Rightarrow> objectLiteral \<Rightarrow> objectLiteral \<Rightarrow> string + (string \<times> jsval list)"
  stringifyParameters :: "jsval list \<Rightarrow> string"
  stringifyRecords :: "row list \<Rightarrow> string"
  parseRecords :: "string \<Rightarrow> string + row list"
  parseInt :: "jsval \<Rightarrow> int"
  getEntityValue :: "columnMetadata \<Rightarrow> objectLiteral \<Rightarrow> jsval"
  relationIdsFromMetadata :: "expressionMap \<Rightarrow> string + string list"
  relationCountsFromMetadata :: "expressionMap \<Rightarrow> string + string list"
  queryResultCache :: bool
  connCacheOptions :: "cacheOptions option"
  startTransactionOutcome :: "event list \<Rightarrow> string option"
  commitTransactionOutcome :: "event list \<Rightarrow> string option"
  rollbackTransactionOutcome :: "event list \<Rightarrow> string option"
  releaseOutcome :: "event list \<Rightarrow> string option"
  queryOutcome :: "event list \<Rightarrow> string \<Rightarrow> jsval list \<Rightarrow> string + row list"
  getFromCacheOutcome ::
    "event list \<Rightarrow> string option \<Rightarrow> string \<Rightarrow> int \<Rightarrow> string + queryResultCacheOptions option"
  isExpired :: "event list \<Rightarrow> queryResultCacheOptions \<Rightarrow> string + bool"
  storeInCacheOutcome :: "event list \<Rightarrow> string option"
  relationIdLoadOutcome :: "event list \<Rightarrow> row list \<Rightarrow> string + row list"
  relationCountLoadOutcome :: "event list \<Rightarrow> row list \<Rightarrow> string + row list"
  transform ::
    "expressionMap \<Rightarrow> row list \<Rightarrow> row list \<Rightarrow> row list \<Rightarrow> string + objectLiteral list"
  relationSeparateLoadOutcome :: "event list \<Rightarrow> objectLiteral list \<Rightarrow> string option"
  broadcastOutcome :: "event list \<Rightarrow> string option"

text \<open>An error of a collaborator, as the builder sees it.\<close>

definition fromCollaborator :: "string + 'a \<Rightarrow> error + 'a" where
  "fromCollaborator r = (case r of Inl m \<Rightarrow> Inl (CollaboratorError m) | Inr x \<Rightarrow> Inr x)"

text \<open>Sequencing of steps that may throw.\<close>

definition thenE :: "error + 'a \<Rightarrow> ('a \<Rightarrow> error + 'b) \<Rightarrow> error + 'b" where
  "thenE r f = (case r of Inl e \<Rightarrow> Inl e | Inr x \<Rightarrow> f x)"

section \<open>Mutators\<close>

text \<open>
  Modelled from the spec: \<^verbatim>\<open>setParameters\<close> belongs to the parent class, which is not in
  this file; the spec has parameters "merged into the parent's parameter set", so each
  given key is written into the map's parameters. The mutators test \<^verbatim>\<open>if (parameters)\<close>:
  an object literal is always truthy, only \<^verbatim>\<open>undefined\<close> is skipped.
\<close>

definition setParameters :: "objectLiteral \<Rightarrow> expressionMap \<Rightarrow> expressionMap" where
  "setParameters ps em = em\<lparr>parameters := fold (\<lambda>(k, v) acc. setProp acc k v) ps (parameters em)\<rparr>"

definition having :: "string \<Rightarrow> objectLiteral option \<Rightarrow> expressionMap \<Rightarrow> expressionMap" where
  "having h ps em =
     (let em1 = em\<lparr>havings := havings em @ [\<lparr>condType = Simple, condText = h\<rparr>]\<rparr>
      in case ps of None \<Rightarrow> em1 | Some p \<Rightarrow> setParameters p em1)"

definition andHaving :: "string \<Rightarrow> objectLiteral option \<Rightarrow> expressionMap \<Rightarrow> expressionMap" where
  "andHaving h ps em =
     (let em1 = em\<lparr>havings := havings em @ [\<lparr>condType = And, condText = h\<rparr>]\<rparr>
      in case ps of None \<Rightarrow> em1 | Some p \<Rightarrow> setParameters p em1)"

definition orHaving :: "string \<Rightarrow> objectLiteral option \<Rightarrow> expressionMap \<Rightarrow> expressionMap" where
  "orHaving h ps em =
     (let em1 = em\<lparr>havings := havings em @ [\<lparr>condType = Or, condText = h\<rparr>]\<rparr>
      in case ps of None \<Rightarrow> em1 | Some p \<Rightarrow> setParameters p em1)"

section \<open>Clause compilers\<close>

text \<open>
  The getter \<^verbatim>\<open>allOrderBys\<close> of the expression map lies outside this file: it reads the
  ordering, the main alias and the options of the map, and gives the ordering in force.
\<close>

definition allOrderBys :: "connection \<Rightarrow> expressionMap \<Rightarrow> orderByCondition" where
  "allOrderBys conn em = allOrderBysOf conn (orderBys em) (mainAlias em) (options em)"

definition createGroupByExpression :: "connection \<Rightarrow> expressionMap \<Rightarrow> string" where
  "createGroupByExpression conn em =
     (if groupBys em = [] then []
      else '' GROUP BY '' @ replacePropertyNames conn em (join '', '' (groupBys em)))"

definition createHavingExpression :: "connection \<Rightarrow> expressionMap \<Rightarrow> string" where
  "createHavingExpression conn em =
     (if havings em = [] then []
      else
        let conditions = join '' ''
              (map (\<lambda>(index, h).
                      case condType h of
                        And \<Rightarrow> (if index > 0 then ''AND '' else []) @ replacePropertyNames conn em (condText h)
                      | Or \<Rightarrow> (if index > 0 then ''OR '' else []) @ replacePropertyNames conn em (condText h)
                      | Simple \<Rightarrow> replacePropertyNames conn em (condText h))
                   (enumerate (0::nat) (havings em)))
        in if conditions = [] then [] else '' HAVING '' @ conditions)"

definition createOrderByExpression :: "connection \<Rightarrow> expressionMap \<Rightarrow> string" where
  "createOrderByExpression conn em =
     (let obs = allOrderBys conn em in
      if length obs > 0 then
        '' ORDER BY '' @ join '', ''
          (map (\<lambda>(columnName, v).
                  case v of
                    OrderOnly ord \<Rightarrow> replacePropertyNames conn em columnName @ '' '' @ ord
                  | OrderNulls ord nulls \<Rightarrow>
                      replacePropertyNames conn em columnName @ '' '' @ ord @ '' '' @ nulls)
               obs)
      else [])"

definition createLimitOffsetExpression :: "connection \<Rightarrow> expressionMap \<Rightarrow> error + string" where
  "createLimitOffsetExpression conn em =
     (let (offs, lim) =
            (if \<not> truthyNum (offset em) \<and> \<not> truthyNum (limit em) \<and> length (joinAttributes em) = 0
             then (skip em, takeCount em) else (offset em, limit em));
          l = numToString (case lim of None \<Rightarrow> 0 | Some n \<Rightarrow> n);
          off = numToString (case offs of None \<Rightarrow> 0 | Some n \<Rightarrow> n)
      in
      if driver conn = SqlServerDriver then
        (let prefix = (if (truthyNum lim \<or> truthyNum offs) \<and> length (allOrderBys conn em) \<le> 0
                       then '' ORDER BY (SELECT NULL)'' else [])
         in if truthyNum lim \<and> truthyNum offs then
              Inr (prefix @ '' OFFSET '' @ off @ '' ROWS FETCH NEXT '' @ l @ '' ROWS ONLY'')
            else if truthyNum lim then
              Inr (prefix @ '' OFFSET 0 ROWS FETCH NEXT '' @ l @ '' ROWS ONLY'')
            else if truthyNum offs then
              Inr (prefix @ '' OFFSET '' @ off @ '' ROWS'')
            else Inr [])
      else if driver conn = MysqlDriver \<or> driver conn = AuroraDataApiDriver \<or> driver conn = SapDriver then
        (if truthyNum lim \<and> truthyNum offs then Inr ('' LIMIT '' @ l @ '' OFFSET '' @ off)
         else if truthyNum lim then Inr ('' LIMIT '' @ l)
         else if truthyNum offs then Inl OffsetWithoutLimitNotSupportedError
         else Inr [])
      else if driver conn = AbstractSqliteDriver then
        (if truthyNum lim \<and> truthyNum offs then Inr ('' LIMIT '' @ l @ '' OFFSET '' @ off)
         else if truthyNum lim then Inr ('' LIMIT '' @ l)
         else if truthyNum offs then Inr ('' LIMIT -1 OFFSET '' @ off)
         else Inr [])
      else if driver conn = OracleDriver then
        (if truthyNum lim \<and> truthyNum offs then
           Inr ('' OFFSET '' @ off @ '' ROWS FETCH NEXT '' @ l @ '' ROWS ONLY'')
         else if truthyNum lim then Inr ('' FETCH NEXT '' @ l @ '' ROWS ONLY'')
         else if truthyNum offs then Inr ('' OFFSET '' @ off @ '' ROWS'')
         else Inr [])
      else
        (if truthyNum lim \<and> truthyNum offs then Inr ('' LIMIT '' @ l @ '' OFFSET '' @ off)
         else if truthyNum lim then Inr ('' LIMIT '' @ l)
         else if truthyNum offs then Inr ('' OFFSET '' @ off)
         else Inr []))"

definition createLockExpression :: "connection \<Rightarrow> expressionMap \<Rightarrow> error + string" where
  "createLockExpression conn em =
     (let drv = driver conn in
      case (case lockTables em of
              None \<Rightarrow> Inr []
            | Some tables \<Rightarrow>
                if drv \<noteq> PostgresDriver then Inl (TypeORMError ''Lock tables not supported in selected driver'')
                else if length tables < 1 then Inl (TypeORMError ''lockTables cannot be an empty array'')
                else Inr ('' OF '' @ join '', '' tables)) of
        Inl e \<Rightarrow> Inl e
      | Inr lockTablesClause \<Rightarrow>
          (case lockMode em of
             Some PessimisticRead \<Rightarrow>
               if drv = MysqlDriver \<or> drv = AuroraDataApiDriver then Inr '' LOCK IN SHARE MODE''
               else if drv = PostgresDriver then Inr ('' FOR SHARE'' @ lockTablesClause)
               else if drv = OracleDriver then Inr '' FOR UPDATE''
               else if drv = SqlServerDriver then Inr []
               else Inl LockNotSupportedOnGivenDriverError
           | Some PessimisticWrite \<Rightarrow>
               if drv = MysqlDriver \<or> drv = AuroraDataApiDriver \<or> drv = OracleDriver then Inr '' FOR UPDATE''
               else if drv = PostgresDriver then Inr ('' FOR UPDATE'' @ lockTablesClause)
               else if drv = SqlServerDriver then Inr []
               else Inl LockNotSupportedOnGivenDriverError
           | Some PessimisticPartialWrite \<Rightarrow>
               if drv = PostgresDriver then Inr ('' FOR UPDATE'' @ lockTablesClause @ '' SKIP LOCKED'')
               else if drv = MysqlDriver then Inr '' FOR UPDATE SKIP LOCKED''
               else Inl LockNotSupportedOnGivenDriverError
           | Some PessimisticWriteOrFail \<Rightarrow>
               if drv = PostgresDriver then Inr ('' FOR UPDATE'' @ lockTablesClause @ '' NOWAIT'')
               else if drv = MysqlDriver then Inr '' FOR UPDATE NOWAIT''
               else Inl LockNotSupportedOnGivenDriverError
           | Some ForNoKeyUpdate \<Rightarrow>
               if drv = PostgresDriver then Inr ('' FOR NO KEY UPDATE'' @ lockTablesClause)
               else Inl LockNotSupportedOnGivenDriverError
           | _ \<Rightarrow> Inr []))"

text \<open>
  \<^verbatim>\<open>createSelectExpression\<close> checks the main alias itself; the text it then assembles from
  column metadata, aliases and table names is the collaborator \<open>selectFromText\<close>.
\<close>

definition createSelectExpression :: "connection \<Rightarrow> expressionMap \<Rightarrow> error + string" where
  "createSelectExpression conn em =
     (case mainAlias em of
        None \<Rightarrow> Inl (TypeORMError ''Cannot build query because main alias is not set (call qb#from method)'')
      | Some a \<Rightarrow> fromCollaborator (selectFromText conn em))"

text \<open>
  \<^verbatim>\<open>String.prototype.trim\<close>, on the white space among the code units below 256.
\<close>

definition isWhiteSpace :: "char \<Rightarrow> bool" where
  "isWhiteSpace c = (of_char c \<in> {9, 10, 11, 12, 13, 32, 160 :: nat})"

definition trim :: "string \<Rightarrow> string" where
  "trim s = rev (dropWhile isWhiteSpace (rev (dropWhile isWhiteSpace s)))"

definition getQuery :: "connection \<Rightarrow> expressionMap \<Rightarrow> error + string" where
  "getQuery conn em =
     (let sql0 = createComment conn em in
      thenE (createSelectExpression conn em) (\<lambda>sel.
      thenE (fromCollaborator (createJoinExpression conn em)) (\<lambda>jn.
      thenE (fromCollaborator (createWhereExpression conn em)) (\<lambda>wh.
      let grp = createGroupByExpression conn em;
          hav = createHavingExpression conn em;
          ord = createOrderByExpression conn em in
      thenE (createLimitOffsetExpression conn em) (\<lambda>lim.
      thenE (createLockExpression conn em) (\<lambda>lck.
      let sql = trim (sql0 @ sel @ jn @ wh @ grp @ hav @ ord @ lim @ lck)
      in Inr (if subQuery em then ''('' @ sql @ '')'' else sql)))))))"

text \<open>
  Modelled from the spec: \<^verbatim>\<open>getQueryAndParameters\<close> belongs to the parent class, which is
  not in this file. The spec has the model compiled "into dialect-correct SQL text plus a
  positional/named parameter list": the text of \<open>getQuery\<close> and the model's parameters go
  through the driver's placeholder conversion, the collaborator
  \<open>escapeQueryWithParameters\<close>.
\<close>

definition getQueryAndParameters :: "connection \<Rightarrow> expressionMap \<Rightarrow> error + (string \<times> jsval list)" where
  "getQueryAndParameters conn em =
     thenE (getQuery conn em) (\<lambda>q.
       fromCollaborator (escapeQueryWithParameters conn q (parameters em) (nativeParameters em)))"

section \<open>The count expression\<close>

definition computeCountExpression :: "connection \<Rightarrow> expressionMap \<Rightarrow> error + string" where
  "computeCountExpression conn em =
     (case mainAlias em of
        None \<Rightarrow> Inl TypeError
      | Some ma \<Rightarrow>
          thenE (fromCollaborator (metadataOf conn ma)) (\<lambda>metadata.
            let cols = primaryColumns metadata;
                distinctAlias = escape conn (name ma);
                col = (\<lambda>c. distinctAlias @ ''.'' @ escape conn (databaseName c))
            in
            if length (joinAttributes em) = 0 \<and> length (relationIdAttributes em) = 0
               \<and> length (relationCountAttributes em) = 0 then Inr ''COUNT(1)''
            else if driver conn = CockroachDriver \<or> driver conn = PostgresDriver then
              Inr (''COUNT(DISTINCT('' @ join '', '' (map col cols) @ ''))'')
            else if driver conn = MysqlDriver then
              Inr (''COUNT(DISTINCT '' @ join '', '' (map col cols) @ '')'')
            else if driver conn = SqlServerDriver then
              (let columnsExpression = join ('', '' @ [CHR 0x27] @ ''|;|'' @ [CHR 0x27] @ '', '') (map col cols)
               in if length cols = 1 then Inr (''COUNT(DISTINCT('' @ columnsExpression @ ''))'')
                  else Inr (''COUNT(DISTINCT(CONCAT('' @ columnsExpression @ '')))''))
            else
              Inr (''COUNT(DISTINCT('' @
                   join ('' || '' @ [CHR 0x27] @ ''|;|'' @ [CHR 0x27] @ '' || '') (map col cols) @ ''))'')))"

section \<open>The query runner\<close>

text \<open>
  The state of the query runner in use: whether a transaction is active, and the calls
  made to the collaborators so far, oldest first.
\<close>

record world =
  isTransactionActive :: bool
  events :: "event list"

type_synonym 'a exec = "world \<Rightarrow> (error + 'a) \<times> world"

definition emit :: "event \<Rightarrow> world \<Rightarrow> world" where
  "emit ev w = w\<lparr>events := events w @ [ev]\<rparr>"

definition ret :: "'a \<Rightarrow> 'a exec" where
  "ret x w = (Inr x, w)"

definition andThen :: "'a exec \<Rightarrow> ('a \<Rightarrow> 'b exec) \<Rightarrow> 'b exec" where
  "andThen m f w = (case m w of (Inl e, w') \<Rightarrow> (Inl e, w') | (Inr x, w') \<Rightarrow> f x w')"

definition pureE :: "error + 'a \<Rightarrow> 'a exec" where
  "pureE r w = (r, w)"

text \<open>A call to a collaborator: it is recorded, and its outcome depends on the history.\<close>

definition collaborate :: "event \<Rightarrow> (event list \<Rightarrow> string + 'a) \<Rightarrow> 'a exec" where
  "collaborate ev outcome w = (fromCollaborator (outcome (events w)), emit ev w)"

definition failing :: "string option \<Rightarrow> string + unit" where
  "failing r = (case r of None \<Rightarrow> Inr () | Some m \<Rightarrow> Inl m)"

text \<open>
  Modelled from the spec: the query runner is outside this file; the spec gives it
  \<^verbatim>\<open>is_transaction_active\<close> and \<^verbatim>\<open>start/commit/rollback_transaction\<close>. A transaction that
  was started is active until it is committed or rolled back; a call that raises leaves
  the flag as it was.
\<close>

definition startTransaction :: "connection \<Rightarrow> unit exec" where
  "startTransaction conn w =
     (case collaborate StartTransaction (\<lambda>h. failing (startTransactionOutcome conn h)) w of
        (Inl e, w') \<Rightarrow> (Inl e, w')
      | (Inr u, w') \<Rightarrow> (Inr u, w'\<lparr>isTransactionActive := True\<rparr>))"

definition commitTransaction :: "connection \<Rightarrow> unit exec" where
  "commitTransaction conn w =
     (case collaborate CommitTransaction (\<lambda>h. failing (commitTransactionOutcome conn h)) w of
        (Inl e, w') \<Rightarrow> (Inl e, w')
      | (Inr u, w') \<Rightarrow> (Inr u, w'\<lparr>isTransactionActive := False\<rparr>))"

definition rollbackTransaction :: "connection \<Rightarrow> unit exec" where
  "rollbackTransaction conn w =
     (case collaborate RollbackTransaction (\<lambda>h. failing (rollbackTransactionOutcome conn h)) w of
        (Inl e, w') \<Rightarrow> (Inl e, w')
      | (Inr u, w') \<Rightarrow> (Inr u, w'\<lparr>isTransactionActive := False\<rparr>))"

definition release :: "connection \<Rightarrow> unit exec" where
  "release conn = collaborate Release (\<lambda>h. failing (releaseOutcome conn h))"

definition runQuery :: "connection \<Rightarrow> string \<Rightarrow> jsval list \<Rightarrow> row list exec" where
  "runQuery conn sql ps = collaborate (Query sql ps) (\<lambda>h. queryOutcome conn h sql ps)"

text \<open>
  A builder: its expression map, and whether it was given a query runner
  (\<^verbatim>\<open>this.queryRunner\<close>). \<^verbatim>\<open>obtainQueryRunner\<close> uses the given runner or has the connection
  create one, which starts outside a transaction; the \<^verbatim>\<open>finally\<close> blocks release a
  runner only if it was created.
\<close>

record selectQueryBuilder =
  expressionMap :: expressionMap
  queryRunner :: bool

definition obtainQueryRunner :: "selectQueryBuilder \<Rightarrow> world \<Rightarrow> world" where
  "obtainQueryRunner qb w =
     (if queryRunner qb then w else emit CreateQueryRunner (w\<lparr>isTransactionActive := False\<rparr>))"

text \<open>
  The block that \<^verbatim>\<open>getRawMany\<close>, \<^verbatim>\<open>getRawAndEntities\<close>, \<^verbatim>\<open>getCount\<close> and
  \<^verbatim>\<open>getManyAndCount\<close> each write out: obtain the runner; in \<^verbatim>\<open>try\<close>, start a transaction
  if one was asked for and none is active, run the body, commit if we started; in
  \<^verbatim>\<open>catch\<close>, roll back if we started, swallowing a failure of the rollback, and rethrow; in
  \<^verbatim>\<open>finally\<close>, release a runner we created, an error of the release replacing the outcome.
\<close>

definition rollbackIfStarted :: "connection \<Rightarrow> bool \<Rightarrow> world \<Rightarrow> world" where
  "rollbackIfStarted conn transactionStartedByUs w =
     (if transactionStartedByUs then snd (rollbackTransaction conn w) else w)"

definition tryBlock :: "connection \<Rightarrow> expressionMap \<Rightarrow> 'a exec \<Rightarrow> 'a exec" where
  "tryBlock conn em body w =
     (if useTransaction em \<and> \<not> isTransactionActive w then
        (case startTransaction conn w of
           (Inl e, w1) \<Rightarrow> (Inl e, rollbackIfStarted conn False w1)
         | (Inr u, w1) \<Rightarrow>
             (case body w1 of
                (Inl e, w2) \<Rightarrow> (Inl e, rollbackIfStarted conn True w2)
              | (Inr results, w2) \<Rightarrow>
                  (case commitTransaction conn w2 of
                     (Inl e, w3) \<Rightarrow> (Inl e, rollbackIfStarted conn True w3)
                   | (Inr u', w3) \<Rightarrow> (Inr results, w3))))
      else
        (case body w of
           (Inl e, w2) \<Rightarrow> (Inl e, rollbackIfStarted conn False w2)
         | (Inr results, w2) \<Rightarrow> (Inr results, w2)))"

definition inRunner :: "connection \<Rightarrow> selectQueryBuilder \<Rightarrow> 'a exec \<Rightarrow> 'a exec" where
  "inRunner conn qb body w =
     (case tryBlock conn (expressionMap qb) body (obtainQueryRunner qb w) of
        (r, w') \<Rightarrow>
          if queryRunner qb then (r, w')
          else (case release conn w' of
                  (Inl e, w'') \<Rightarrow> (Inl e, w'')
                | (Inr u, w'') \<Rightarrow> (r, w'')))"

section \<open>Loading raw results through the result cache\<close>

datatype cacheLookup =
    CacheHit "row list"
  | CacheMiss "queryResultCacheOptions option" bool

text \<open>\<^verbatim>\<open>a || b || 1000\<close> on optional numbers.\<close>

definition orElse :: "int option \<Rightarrow> int option \<Rightarrow> int option" where
  "orElse a b = (if truthyNum a then a else b)"

definition cacheDurationOf :: "expressionMap \<Rightarrow> cacheOptions \<Rightarrow> int" where
  "cacheDurationOf em opts =
     (case orElse (orElse (cacheDuration em) (duration opts)) (Some 1000) of
        Some d \<Rightarrow> d | None \<Rightarrow> 1000)"

text \<open>
  The body of the first \<^verbatim>\<open>try\<close> of \<^verbatim>\<open>loadRawResults\<close>: read the entry, and on an entry that
  is not expired parse and return its rows.
\<close>

definition readFromCache ::
  "connection \<Rightarrow> expressionMap \<Rightarrow> string \<Rightarrow> int \<Rightarrow> cacheLookup exec" where
  "readFromCache conn em queryId dur =
     andThen (collaborate (GetFromCache (cacheId em) queryId dur)
                (\<lambda>h. getFromCacheOutcome conn h (cacheId em) queryId dur))
       (\<lambda>saved w.
          case saved of
            None \<Rightarrow> (Inr (CacheMiss None False), w)
          | Some entry \<Rightarrow>
              (case fromCollaborator (isExpired conn (events w) entry) of
                 Inl e \<Rightarrow> (Inl e, w)
               | Inr True \<Rightarrow> (Inr (CacheMiss saved False), w)
               | Inr False \<Rightarrow>
                   (case fromCollaborator (parseRecords conn (cachedResult entry)) of
                      Inl e \<Rightarrow> (Inl e, w)
                    | Inr rows \<Rightarrow> (Inr (CacheHit rows), w))))"

definition storeInCache ::
  "connection \<Rightarrow> expressionMap \<Rightarrow> string \<Rightarrow> int \<Rightarrow> string
     \<Rightarrow> queryResultCacheOptions option \<Rightarrow> unit exec" where
  "storeInCache conn em queryId dur result savedQueryResultCacheOptions =
     collaborate (StoreInCache (cacheId em) queryId dur result savedQueryResultCacheOptions)
       (\<lambda>h. failing (storeInCacheOutcome conn h))"

definition loadRawResults :: "connection \<Rightarrow> expressionMap \<Rightarrow> row list exec" where
  "loadRawResults conn em w =
     (case getQueryAndParameters conn em of
        Inl e \<Rightarrow> (Inl e, w)
      | Inr (sql, ps) \<Rightarrow>
          let queryId = sql @ '' -- PARAMETERS: '' @ stringifyParameters conn ps;
              opts = (case connCacheOptions conn of
                        Some given \<Rightarrow> given
                      | None \<Rightarrow> \<lparr>alwaysEnabled = False, ignoreErrors = False, duration = None\<rparr>);
              caching = (queryResultCache conn \<and> (cache em \<or> alwaysEnabled opts));
              dur = cacheDurationOf em opts
          in
          case (if caching then
                  (case readFromCache conn em queryId dur w of
                     (Inl e, w1) \<Rightarrow>
                       if \<not> ignoreErrors opts then (Inl e, w1) else (Inr (CacheMiss None True), w1)
                   | (Inr found, w1) \<Rightarrow> (Inr found, w1))
                else (Inr (CacheMiss None False), w)) of
            (Inl e, w1) \<Rightarrow> (Inl e, w1)
          | (Inr (CacheHit rows), w1) \<Rightarrow> (Inr rows, w1)
          | (Inr (CacheMiss saved cacheError), w1) \<Rightarrow>
              (case runQuery conn sql ps w1 of
                 (Inl e, w2) \<Rightarrow> (Inl e, w2)
               | (Inr records, w2) \<Rightarrow>
                   if \<not> cacheError \<and> caching then
                     (case storeInCache conn em queryId dur (stringifyRecords conn records) saved w2 of
                        (Inl e, w3) \<Rightarrow>
                          if \<not> ignoreErrors opts then (Inl e, w3) else (Inr records, w3)
                      | (Inr u, w3) \<Rightarrow> (Inr records, w3))
                   else (Inr records, w2)))"

section \<open>Mutators used by the orchestrator\<close>

text \<open>
  A mutator whose name is also a field of the expression map carries the suffix
  \<open>Call\<close>. The numeric setters pass a number or \<^verbatim>\<open>undefined\<close> through
  \<^verbatim>\<open>normalizeNumber\<close> unchanged; their NaN check cannot fire on the numbers of this model.
\<close>

definition limitCall :: "int option \<Rightarrow> expressionMap \<Rightarrow> expressionMap" where
  "limitCall n em = em\<lparr>limit := n\<rparr>"

definition offsetCall :: "int option \<Rightarrow> expressionMap \<Rightarrow> expressionMap" where
  "offsetCall n em = em\<lparr>offset := n\<rparr>"

definition takeCall :: "int option \<Rightarrow> expressionMap \<Rightarrow> expressionMap" where
  "takeCall n em = em\<lparr>takeCount := n\<rparr>"

definition skipCall :: "int option \<Rightarrow> expressionMap \<Rightarrow> expressionMap" where
  "skipCall n em = em\<lparr>skip := n\<rparr>"

text \<open>\<^verbatim>\<open>select\<close> and \<^verbatim>\<open>addSelect\<close> with a string: an empty string is falsy and changes nothing.\<close>

definition select :: "string \<Rightarrow> string option \<Rightarrow> expressionMap \<Rightarrow> expressionMap" where
  "select sel selectionAliasName em =
     (if sel \<noteq> [] then
        em\<lparr>selects := [\<lparr>selection = sel, aliasName = selectionAliasName, virtual = False\<rparr>]\<rparr>
      else em)"

definition addSelect :: "string \<Rightarrow> string option \<Rightarrow> expressionMap \<Rightarrow> expressionMap" where
  "addSelect sel selectionAliasName em =
     (if sel = [] then em
      else em\<lparr>selects := selects em @ [\<lparr>selection = sel, aliasName = selectionAliasName, virtual = False\<rparr>]\<rparr>)"

text \<open>\<^verbatim>\<open>orderBy()\<close> clears the ordering; \<^verbatim>\<open>orderBy(object)\<close> installs the object.\<close>

definition orderBy :: "orderByCondition option \<Rightarrow> expressionMap \<Rightarrow> expressionMap" where
  "orderBy sortObject em = (case sortObject of Some obs \<Rightarrow> em\<lparr>orderBys := obs\<rparr> | None \<Rightarrow> em\<lparr>orderBys := []\<rparr>)"

definition groupBy :: "string option \<Rightarrow> expressionMap \<Rightarrow> expressionMap" where
  "groupBy g em =
     (case g of
        Some s \<Rightarrow> if s \<noteq> [] then em\<lparr>groupBys := [s]\<rparr> else em\<lparr>groupBys := []\<rparr>
      | None \<Rightarrow> em\<lparr>groupBys := []\<rparr>)"

definition setOption :: "string \<Rightarrow> expressionMap \<Rightarrow> expressionMap" where
  "setOption opt em = em\<lparr>options := options em @ [opt]\<rparr>"

datatype cacheArgument = CacheBoolean bool | CacheMilliseconds int | CacheId string | CacheUndefined

definition cacheCall :: "cacheArgument \<Rightarrow> int option \<Rightarrow> expressionMap \<Rightarrow> expressionMap" where
  "cacheCall enabledOrMillisecondsOrId maybeMilliseconds em =
     (let em1 = (case enabledOrMillisecondsOrId of
                   CacheBoolean b \<Rightarrow> em\<lparr>cache := b\<rparr>
                 | CacheMilliseconds ms \<Rightarrow> em\<lparr>cache := True, cacheDuration := Some ms\<rparr>
                 | CacheId i \<Rightarrow> em\<lparr>cache := True, cacheId := Some i\<rparr>
                 | CacheUndefined \<Rightarrow> em)
      in if truthyNum maybeMilliseconds then em1\<lparr>cacheDuration := maybeMilliseconds\<rparr> else em1)"

text \<open>
  Modelled from the spec: \<^verbatim>\<open>createFromAlias\<close>, \<^verbatim>\<open>setMainAlias\<close>, \<^verbatim>\<open>setNativeParameters\<close> and
  the constructor of the expression map are defined outside this file. Per the spec an
  alias has a "target: table_path | subquery_text | entity_schema" and \<^verbatim>\<open>from\<close> installs
  the main alias; \<open>fromCall\<close> is \<^verbatim>\<open>from\<close> on the text of a parenthesised sub-query. A new
  builder has every sequence empty, every optional slot unset and every flag off, but for
  the listeners.
\<close>

definition fromCall :: "string \<Rightarrow> string \<Rightarrow> expressionMap \<Rightarrow> expressionMap" where
  "fromCall entityTarget nm em =
     em\<lparr>mainAlias := Some \<lparr>name = nm, hasMetadata = False, tablePath = None,
                              aliasSubQuery = Some entityTarget\<rparr>\<rparr>"

definition setNativeParameters :: "objectLiteral \<Rightarrow> expressionMap \<Rightarrow> expressionMap" where
  "setNativeParameters ps em =
     em\<lparr>nativeParameters := fold (\<lambda>(k, v) acc. setProp acc k v) ps (nativeParameters em)\<rparr>"

definition newExpressionMap :: expressionMap where
  "newExpressionMap =
     \<lparr>mainAlias = None, selects = [], joinAttributes = [], relationIdAttributes = [],
      relationCountAttributes = [], wheres = [], havings = [], groupBys = [], orderBys = [],
      limit = None, offset = None, skip = None, takeCount = None, lockMode = None,
      lockVersion = None, lockTables = None, subQuery = False, queryEntity = False,
      useTransaction = False, callListeners = True, cache = False, cacheId = None,
      cacheDuration = None, parameters = [], nativeParameters = [], options = [],
      extraAppendedAndWhereCondition = []\<rparr>"

definition mergeExtraAppendedAndWhereCondition :: "string \<Rightarrow> expressionMap \<Rightarrow> expressionMap" where
  "mergeExtraAppendedAndWhereCondition cond em = em\<lparr>extraAppendedAndWhereCondition := cond\<rparr>"

section \<open>Raw results and the count query\<close>

definition getRawMany :: "connection \<Rightarrow> selectQueryBuilder \<Rightarrow> row list exec" where
  "getRawMany conn qb w =
     (if lockMode (expressionMap qb) = Some Optimistic then (Inl OptimisticLockCanNotBeUsedError, w)
      else
        let em = (expressionMap qb)\<lparr>queryEntity := False\<rparr>
        in inRunner conn (qb\<lparr>expressionMap := em\<rparr>) (loadRawResults conn em) w)"

definition executeCountQuery :: "connection \<Rightarrow> expressionMap \<Rightarrow> int exec" where
  "executeCountQuery conn em w =
     (case computeCountExpression conn em of
        Inl e \<Rightarrow> (Inl e, w)
      | Inr countSql \<Rightarrow>
          (case loadRawResults conn
                  (setOption ''disable-global-order''
                    (select countSql (Some ''cnt'')
                      (takeCall None (skipCall None (limitCall None (offsetCall None
                        (groupBy None (orderBy None em)))))))) w of
             (Inl e, w1) \<Rightarrow> (Inl e, w1)
           | (Inr results, w1) \<Rightarrow>
               (case results of
                  [] \<Rightarrow> (Inr 0, w1)
                | r # rest \<Rightarrow>
                    if \<not> truthy (getProp r ''cnt'') then (Inr 0, w1)
                    else (Inr (parseInt conn (getProp r ''cnt'')), w1))))"

section \<open>Entities and raw results\<close>

record entitiesAndRaw =
  entities :: "objectLiteral list"
  raw :: "row list"

definition isPessimistic :: "lockMode option \<Rightarrow> bool" where
  "isPessimistic m =
     (m = Some PessimisticRead \<or> m = Some PessimisticWrite \<or> m = Some PessimisticPartialWrite
      \<or> m = Some PessimisticWriteOrFail \<or> m = Some ForNoKeyUpdate)"

text \<open>Steps that may throw, over a list, stopping at the first error.\<close>

fun mapE :: "('a \<Rightarrow> error + 'b) \<Rightarrow> 'a list \<Rightarrow> error + 'b list" where
  "mapE f [] = Inr []"
| "mapE f (x # xs) = thenE (f x) (\<lambda>y. thenE (mapE f xs) (\<lambda>ys. Inr (y # ys)))"

text \<open>Assignment \<^verbatim>\<open>obj[key] = value\<close> on an ordering object.\<close>

definition setOrder :: "orderByCondition \<Rightarrow> string \<Rightarrow> orderByValue \<Rightarrow> orderByCondition" where
  "setOrder obj k v =
     (if k \<in> set (map fst obj) then map (\<lambda>(k', v'). if k' = k then (k', v) else (k', v')) obj
      else obj @ [(k, v)])"

definition truthyOrder :: "orderByValue option \<Rightarrow> bool" where
  "truthyOrder v = (case v of None \<Rightarrow> False | Some (OrderOnly ord) \<Rightarrow> ord \<noteq> [] | Some (OrderNulls ord nulls) \<Rightarrow> True)"

text \<open>
  In \<^verbatim>\<open>createOrderByCombinedWithSelectExpression\<close>, the column an ordering criterion
  \<^verbatim>\<open>alias.path\<close> names is looked up through the alias registry and the metadata, the
  collaborator \<open>columnDatabaseName\<close>.
\<close>

definition orderCriteriaTarget ::
  "connection \<Rightarrow> expressionMap \<Rightarrow> string \<Rightarrow> string \<Rightarrow> error + string option" where
  "orderCriteriaTarget conn em parentAlias orderCriteria =
     (if CHR ''.'' \<in> set orderCriteria then
        (let nm = takeWhile (\<lambda>c. c \<noteq> CHR ''.'') orderCriteria;
             path = tl (dropWhile (\<lambda>c. c \<noteq> CHR ''.'') orderCriteria)
         in thenE (fromCollaborator (columnDatabaseName conn em nm path)) (\<lambda>dbName.
              Inr (Some (escape conn parentAlias @ ''.'' @ escape conn (buildAlias conn nm dbName)))))
      else if list_ex (\<lambda>sel. selection sel = orderCriteria \<or> aliasName sel = Some orderCriteria) (selects em)
        then Inr (Some (escape conn parentAlias @ ''.'' @ orderCriteria))
      else Inr None)"

definition createOrderByCombinedWithSelectExpression ::
  "connection \<Rightarrow> expressionMap \<Rightarrow> string \<Rightarrow> error + (string \<times> orderByCondition)" where
  "createOrderByCombinedWithSelectExpression conn em parentAlias =
     (let obs = allOrderBys conn em in
      thenE (mapE (orderCriteriaTarget conn em parentAlias) (map fst obs)) (\<lambda>targets.
        let selectString = join '', '' (map (\<lambda>t. case t of Some x \<Rightarrow> x | None \<Rightarrow> []) targets);
            orderByObject =
              fold (\<lambda>((orderCriteria, v), t) acc.
                      setOrder acc (case t of Some x \<Rightarrow> x | None \<Rightarrow> orderCriteria) v)
                   (zip obs targets) []
        in Inr (selectString, orderByObject)))"

text \<open>
  The selections of the window query, one per primary column; a primary column that the
  ordering does not mention yet is appended to it, ascending.
\<close>

fun windowSelects ::
  "connection \<Rightarrow> string \<Rightarrow> columnMetadata list \<Rightarrow> orderByCondition \<Rightarrow> string list \<times> orderByCondition" where
  "windowSelects conn mainAliasName [] obs = ([], obs)"
| "windowSelects conn mainAliasName (primaryColumn # rest) obs =
     (let distinctAlias = escape conn ''distinctAlias'';
          columnAlias = escape conn (buildAlias conn mainAliasName (databaseName primaryColumn));
          obs1 = (if \<not> truthyOrder (map_of obs columnAlias) then setOrder obs columnAlias (OrderOnly ''ASC'')
                  else obs);
          al = buildAlias conn (''ids_'' @ mainAliasName) (databaseName primaryColumn);
          (more, obs2) = windowSelects conn mainAliasName rest obs1
      in ((distinctAlias @ ''.'' @ columnAlias @ '' as '' @ [CHR 0x22] @ al @ [CHR 0x22]) # more, obs2))"

text \<open>The expression map of the builder that runs the window query.\<close>

definition windowExpressionMap ::
  "expressionMap \<Rightarrow> string list \<Rightarrow> string \<Rightarrow> string \<Rightarrow> orderByCondition \<Rightarrow> expressionMap" where
  "windowExpressionMap em querySelects selectString innerQuery obs =
     setNativeParameters (nativeParameters em)
       (setParameters (parameters em)
         (cacheCall (if cache em then CacheBoolean True
                     else case cacheId em of Some i \<Rightarrow> CacheId i | None \<Rightarrow> CacheUndefined)
                    (cacheDuration em)
           (orderBy (Some obs)
             (limitCall (takeCount em)
               (offsetCall (skip em)
                 (fromCall (''('' @ innerQuery @ '')'') ''distinctAlias''
                   (addSelect selectString None
                     (select (''DISTINCT '' @ join '', '' querySelects) None newExpressionMap))))))))"

definition isNumber :: "jsval \<Rightarrow> bool" where
  "isNumber v = (case v of JNumber n \<Rightarrow> True | _ \<Rightarrow> False)"

definition numberText :: "jsval \<Rightarrow> string" where
  "numberText v = (case v of JNumber n \<Rightarrow> numToString n | _ \<Rightarrow> [])"

text \<open>
  The condition that restricts the second query to the primary keys of the window, with
  the parameters it binds.
\<close>

definition idsCondition ::
  "connection \<Rightarrow> string \<Rightarrow> entityMetadata \<Rightarrow> row list \<Rightarrow> error + (string \<times> objectLiteral)" where
  "idsCondition conn mainAliasName metadata rawResults =
     (if hasMultiplePrimaryKeys metadata then
        (let paramKey = (\<lambda>index primaryColumn.
                 ''orm_distinct_ids_'' @ numToString (int index) @ ''_'' @ databaseName primaryColumn);
             cond = join '' OR ''
               (map (\<lambda>(index, result).
                       join '' AND ''
                         (map (\<lambda>primaryColumn.
                                 mainAliasName @ ''.'' @ propertyPath primaryColumn @ ''=:''
                                   @ paramKey index primaryColumn)
                              (primaryColumns metadata)))
                    (enumerate (0::nat) rawResults));
             ps = fold (\<lambda>(index, result) acc.
                          fold (\<lambda>primaryColumn acc'.
                                  setProp acc' (paramKey index primaryColumn)
                                    (getProp result
                                       (''ids_'' @ mainAliasName @ ''_'' @ databaseName primaryColumn)))
                               (primaryColumns metadata) acc)
                       (enumerate (0::nat) rawResults) []
         in Inr (cond, ps))
      else
        (case primaryColumns metadata of
           [] \<Rightarrow> Inl TypeError
         | primaryColumn # others \<Rightarrow>
             let al = buildAlias conn (''ids_'' @ mainAliasName) (databaseName primaryColumn);
                 ids = map (\<lambda>result. getProp result al) rawResults
             in if list_all isNumber ids then
                  Inr (mainAliasName @ ''.'' @ propertyPath primaryColumn @ '' IN (''
                         @ join '', '' (map numberText ids) @ '')'', [])
                else
                  Inr (mainAliasName @ ''.'' @ propertyPath primaryColumn @ '' IN (:...orm_distinct_ids)'',
                       [(''orm_distinct_ids'', JArray ids)])))"

text \<open>
  The builder of the window query, when it can be built, with the metadata of the main
  alias: the combined ordering, the metadata and the text of the unordered original query
  may each raise.
\<close>

definition windowQueryBuilder ::
  "connection \<Rightarrow> expressionMap \<Rightarrow> Alias \<Rightarrow> error + (entityMetadata \<times> selectQueryBuilder)" where
  "windowQueryBuilder conn em ma =
     thenE (createOrderByCombinedWithSelectExpression conn em ''distinctAlias'') (\<lambda>(selectString, obs).
     thenE (fromCollaborator (metadataOf conn ma)) (\<lambda>metadata.
       let (querySelects, obs1) = windowSelects conn (name ma) (primaryColumns metadata) obs in
       thenE (getQuery conn (orderBy None em)) (\<lambda>innerQuery.
         Inr (metadata,
              \<lparr>expressionMap = windowExpressionMap em querySelects selectString innerQuery obs1,
               queryRunner = True\<rparr>))))"

text \<open>The two queries of the pagination with joins.\<close>

definition loadPaginated :: "connection \<Rightarrow> expressionMap \<Rightarrow> Alias \<Rightarrow> row list exec" where
  "loadPaginated conn em ma w =
     (case windowQueryBuilder conn em ma of
        Inl e \<Rightarrow> (Inl e, w)
      | Inr (metadata, windowBuilder) \<Rightarrow>
          (case getRawMany conn windowBuilder w of
             (Inl e, w1) \<Rightarrow> (Inl e, w1)
           | (Inr rawResults, w1) \<Rightarrow>
               if length rawResults > 0 then
                 (case idsCondition conn (name ma) metadata rawResults of
                    Inl e \<Rightarrow> (Inl e, w1)
                  | Inr (cond, ps) \<Rightarrow>
                      loadRawResults conn
                        (setParameters ps (mergeExtraAppendedAndWhereCondition cond em)) w1)
               else (Inr rawResults, w1)))"

text \<open>Turning raw rows into entities: the loaders, the transformer, the listeners.\<close>

definition hydrate :: "connection \<Rightarrow> expressionMap \<Rightarrow> Alias \<Rightarrow> row list \<Rightarrow> objectLiteral list exec" where
  "hydrate conn em ma rawResults =
     andThen (collaborate LoadRelationIds (\<lambda>h. relationIdLoadOutcome conn h rawResults)) (\<lambda>rawRelationIdResults.
     andThen (collaborate LoadRelationCounts (\<lambda>h. relationCountLoadOutcome conn h rawResults)) (\<lambda>rawRelationCountResults.
     andThen (pureE (fromCollaborator
                (transform conn em rawRelationIdResults rawRelationCountResults rawResults))) (\<lambda>ents.
     andThen (collaborate LoadRelationSeparate (\<lambda>h. failing (relationSeparateLoadOutcome conn h ents))) (\<lambda>u.
       if callListeners em \<and> hasMetadata ma then
         andThen (pureE (fromCollaborator (metadataOf conn ma))) (\<lambda>metadata.
         andThen (collaborate Broadcast (\<lambda>h. failing (broadcastOutcome conn h))) (\<lambda>u'. ret ents))
       else ret ents))))"

text \<open>
  The two metadata transformers add to the map the relation-id and relation-count
  attributes that the metadata declares, or raise; the map stays changed for later calls.
\<close>

definition transformRelationMetadata :: "connection \<Rightarrow> expressionMap \<Rightarrow> error + expressionMap" where
  "transformRelationMetadata conn em =
     thenE (fromCollaborator (relationIdsFromMetadata conn em)) (\<lambda>ids.
       let em1 = em\<lparr>relationIdAttributes := relationIdAttributes em @ ids\<rparr> in
       thenE (fromCollaborator (relationCountsFromMetadata conn em1)) (\<lambda>counts.
         Inr (em1\<lparr>relationCountAttributes := relationCountAttributes em1 @ counts\<rparr>)))"

text \<open>
  The head of \<^verbatim>\<open>executeEntitiesAndRawResults\<close>: the check of the main alias, the two lock
  checks and the metadata transformers. It returns the main alias and the map as the
  transformers leave it.
\<close>

definition aliasIsNotSet :: string where
  "aliasIsNotSet = ''Alias is not set. Use '' @ [CHR 0x22] @ ''from'' @ [CHR 0x22] @ '' method to set an alias.''"

definition prepareExecution ::
  "connection \<Rightarrow> expressionMap \<Rightarrow> world \<Rightarrow> error + (Alias \<times> expressionMap)" where
  "prepareExecution conn em w =
     (case mainAlias em of
        None \<Rightarrow> Inl (TypeORMError aliasIsNotSet)
      | Some ma \<Rightarrow>
          if isPessimistic (lockMode em) \<and> \<not> isTransactionActive w then
            Inl PessimisticLockTransactionRequiredError
          else
            thenE (if lockMode em = Some Optimistic then
                     thenE (fromCollaborator (metadataOf conn ma)) (\<lambda>metadata.
                       if versionColumn metadata = None \<and> updateDateColumn metadata = None
                       then Inl (NoVersionOrUpdateDateColumnError (metaName metadata)) else Inr ())
                   else Inr ()) (\<lambda>u.
            thenE (transformRelationMetadata conn em) (\<lambda>em'. Inr (ma, em'))))"

definition executeEntitiesAndRawResults :: "connection \<Rightarrow> expressionMap \<Rightarrow> entitiesAndRaw exec" where
  "executeEntitiesAndRawResults conn em0 w =
     (case prepareExecution conn em0 w of
        Inl e \<Rightarrow> (Inl e, w)
      | Inr (ma, em) \<Rightarrow>
          (case (if (truthyNum (skip em) \<or> truthyNum (takeCount em)) \<and> length (joinAttributes em) > 0
                 then loadPaginated conn em ma w
                 else loadRawResults conn em w) of
             (Inl e, w1) \<Rightarrow> (Inl e, w1)
           | (Inr rawResults, w1) \<Rightarrow>
               if length rawResults > 0 then
                 (case hydrate conn em ma rawResults w1 of
                    (Inl e, w2) \<Rightarrow> (Inl e, w2)
                  | (Inr ents, w2) \<Rightarrow> (Inr \<lparr>entities = ents, raw = rawResults\<rparr>, w2))
               else (Inr \<lparr>entities = [], raw = rawResults\<rparr>, w1)))"

text \<open>The expression map as a successful \<^verbatim>\<open>executeEntitiesAndRawResults\<close> leaves it.\<close>

definition mapAfterExecution :: "connection \<Rightarrow> expressionMap \<Rightarrow> expressionMap" where
  "mapAfterExecution conn em = (case transformRelationMetadata conn em of Inr em' \<Rightarrow> em' | Inl e \<Rightarrow> em)"

section \<open>The public fetches\<close>

definition getRawAndEntities :: "connection \<Rightarrow> selectQueryBuilder \<Rightarrow> entitiesAndRaw exec" where
  "getRawAndEntities conn qb =
     inRunner conn qb (executeEntitiesAndRawResults conn ((expressionMap qb)\<lparr>queryEntity := True\<rparr>))"

text \<open>
  The version check of \<^verbatim>\<open>getOne\<close> on the first entity. Reading the version through a
  column the metadata lacks, or calling \<^verbatim>\<open>getTime\<close> on a value that is no date, is a
  \<open>TypeError\<close>.
\<close>

definition checkVersion ::
  "connection \<Rightarrow> expressionMap \<Rightarrow> lockVersion \<Rightarrow> objectLiteral \<Rightarrow> error + unit" where
  "checkVersion conn em version result =
     (case mainAlias em of
        None \<Rightarrow> Inl TypeError
      | Some ma \<Rightarrow>
          thenE (fromCollaborator (metadataOf conn ma)) (\<lambda>metadata.
            case version of
              VersionDate t \<Rightarrow>
                (case updateDateColumn metadata of
                   None \<Rightarrow> Inl TypeError
                 | Some col \<Rightarrow>
                     (case getEntityValue conn col result of
                        JDate actual \<Rightarrow>
                          if actual \<noteq> t then
                            Inl (OptimisticLockVersionMismatchError (metaName metadata) (JDate t) (JDate actual))
                          else Inr ()
                      | other \<Rightarrow> Inl TypeError))
            | VersionNumber n \<Rightarrow>
                (case versionColumn metadata of
                   None \<Rightarrow> Inl TypeError
                 | Some col \<Rightarrow>
                     (let actualVersion = getEntityValue conn col result
                      in if actualVersion \<noteq> JNumber n then
                           Inl (OptimisticLockVersionMismatchError (metaName metadata) (JNumber n) actualVersion)
                         else Inr ()))))"

definition getOne :: "connection \<Rightarrow> selectQueryBuilder \<Rightarrow> objectLiteral option exec" where
  "getOne conn qb w =
     (case getRawAndEntities conn qb w of
        (Inl e, w1) \<Rightarrow> (Inl e, w1)
      | (Inr results, w1) \<Rightarrow>
          (case entities results of
             [] \<Rightarrow> (Inr None, w1)
           | result # others \<Rightarrow>
               (case lockVersion (expressionMap qb) of
                  None \<Rightarrow> (Inr (Some result), w1)
                | Some version \<Rightarrow>
                    if lockMode (expressionMap qb) = Some Optimistic \<and> truthyVersion (Some version) then
                      (case checkVersion conn (expressionMap qb) version result of
                         Inl e \<Rightarrow> (Inl e, w1)
                       | Inr u \<Rightarrow> (Inr (Some result), w1))
                    else (Inr (Some result), w1))))"

definition getOneOrFail :: "connection \<Rightarrow> selectQueryBuilder \<Rightarrow> objectLiteral exec" where
  "getOneOrFail conn qb w =
     (case getOne conn qb w of
        (Inl e, w1) \<Rightarrow> (Inl e, w1)
      | (Inr None, w1) \<Rightarrow> (Inl EntityNotFoundError, w1)
      | (Inr (Some entity), w1) \<Rightarrow> (Inr entity, w1))"

definition getMany :: "connection \<Rightarrow> selectQueryBuilder \<Rightarrow> objectLiteral list exec" where
  "getMany conn qb w =
     (if lockMode (expressionMap qb) = Some Optimistic then (Inl OptimisticLockCanNotBeUsedError, w)
      else
        (case getRawAndEntities conn qb w of
           (Inl e, w1) \<Rightarrow> (Inl e, w1)
         | (Inr results, w1) \<Rightarrow> (Inr (entities results), w1)))"

definition getCount :: "connection \<Rightarrow> selectQueryBuilder \<Rightarrow> int exec" where
  "getCount conn qb w =
     (if lockMode (expressionMap qb) = Some Optimistic then (Inl OptimisticLockCanNotBeUsedError, w)
      else
        inRunner conn qb (executeCountQuery conn ((expressionMap qb)\<lparr>queryEntity := False\<rparr>)) w)"

definition getManyAndCount :: "connection \<Rightarrow> selectQueryBuilder \<Rightarrow> (objectLiteral list \<times> int) exec" where
  "getManyAndCount conn qb w =
     (if lockMode (expressionMap qb) = Some Optimistic then (Inl OptimisticLockCanNotBeUsedError, w)
      else
        inRunner conn qb
          (andThen (executeEntitiesAndRawResults conn ((expressionMap qb)\<lparr>queryEntity := True\<rparr>))
             (\<lambda>entitiesAndRaw.
                let em1 = (mapAfterExecution conn ((expressionMap qb)\<lparr>queryEntity := True\<rparr>))
                            \<lparr>queryEntity := False\<rparr>;
                    em2 = em1\<lparr>cacheId := (case cacheId em1 of
                                              Some i \<Rightarrow> if i \<noteq> [] then Some (i @ ''-count'') else Some i
                                            | None \<Rightarrow> None)\<rparr>
                in andThen (executeCountQuery conn em2)
                     (\<lambda>count. ret (entities entitiesAndRaw, count)))) w)"

section \<open>Predicates on outcomes\<close>

text \<open>The error is the version mismatch of the optimistic lock.\<close>

definition isVersionMismatch :: "error \<Rightarrow> bool" where
  "isVersionMismatch e = (case e of OptimisticLockVersionMismatchError n a b \<Rightarrow> True | _ \<Rightarrow> False)"

text \<open>An outcome that is not the version mismatch.\<close>

definition neverMismatch :: "error + 'a \<Rightarrow> bool" where
  "neverMismatch r = (case r of Inl e \<Rightarrow> \<not> isVersionMismatch e | Inr x \<Rightarrow> True)"

definition neverMismatchX :: "'a exec \<Rightarrow> bool" where
  "neverMismatchX m = (\<forall>w. neverMismatch (fst (m w)))"

text \<open>A step that only adds to the events of the runner.\<close>

definition growing :: "'a exec \<Rightarrow> bool" where
  "growing m = (\<forall>w. prefix (events w) (events (snd (m w))))"

section \<open>A sample connection\<close>

text \<open>
  A connection on which the definitions can be evaluated: identifiers are escaped with
  square brackets, aliases are joined with an underscore, every collaborator succeeds and
  the driver returns no rows.
\<close>

definition sampleMetadata :: entityMetadata where
  "sampleMetadata =
     \<lparr>metaName = ''Post'', primaryColumns = [\<lparr>databaseName = ''id'', propertyPath = ''id''\<rparr>],
      hasMultiplePrimaryKeys = False,
      versionColumn = Some \<lparr>databaseName = ''version'', propertyPath = ''version''\<rparr>,
      updateDateColumn = None\<rparr>"

definition sampleConnection :: "driver \<Rightarrow> connection" where
  "sampleConnection drv =
     \<lparr>driver = drv,
      escape = (\<lambda>s. ''['' @ s @ '']''),
      buildAlias = (\<lambda>a b. a @ ''_'' @ b),
      replacePropertyNames = (\<lambda>em s. s),
      createComment = (\<lambda>em. []),
      selectFromText = (\<lambda>em. Inr (''SELECT '' @ join '', '' (map selection (selects em)) @ '' FROM ''
                                   @ (case mainAlias em of
                                        None \<Rightarrow> []
                                      | Some a \<Rightarrow> (case aliasSubQuery a of
                                                    Some q \<Rightarrow> q @ '' '' @ name a
                                                  | None \<Rightarrow> ''post '' @ name a)))),
      createJoinExpression =
        (\<lambda>em. Inr (join '' ''
                    (map (\<lambda>j. '' '' @ direction j @ '' JOIN ''
                                @ (case tablePath (joinAlias j) of Some t \<Rightarrow> t | None \<Rightarrow> [])
                                @ '' '' @ name (joinAlias j)
                                @ (case joinCondition j of Some c \<Rightarrow> '' ON '' @ c | None \<Rightarrow> []))
                         (joinAttributes em)))),
      createWhereExpression =
        (\<lambda>em. Inr (if extraAppendedAndWhereCondition em = [] then []
                       else '' WHERE '' @ extraAppendedAndWhereCondition em)),
      allOrderBysOf = (\<lambda>obs ma opts. obs),
      metadataOf = (\<lambda>a. Inr sampleMetadata),
      columnDatabaseName = (\<lambda>em a path. Inr path),
      escapeQueryWithParameters = (\<lambda>q ps nps. Inr (q, map snd ps)),
      stringifyParameters = (\<lambda>ps. []),
      stringifyRecords = (\<lambda>rs. []),
      parseRecords = (\<lambda>s. Inr []),
      parseInt = (\<lambda>v. case v of JNumber n \<Rightarrow> n | _ \<Rightarrow> 0),
      getEntityValue = (\<lambda>col e. getProp e (propertyPath col)),
      relationIdsFromMetadata = (\<lambda>em. Inr []),
      relationCountsFromMetadata = (\<lambda>em. Inr []),
      queryResultCache = False,
      connCacheOptions = None,
      startTransactionOutcome = (\<lambda>h. None),
      commitTransactionOutcome = (\<lambda>h. None),
      rollbackTransactionOutcome = (\<lambda>h. None),
      releaseOutcome = (\<lambda>h. None),
      queryOutcome = (\<lambda>h sql ps. Inr []),
      getFromCacheOutcome = (\<lambda>h i q d. Inr None),
      isExpired = (\<lambda>h entry. Inr True),
      storeInCacheOutcome = (\<lambda>h. None),
      relationIdLoadOutcome = (\<lambda>h rows. Inr []),
      relationCountLoadOutcome = (\<lambda>h rows. Inr []),
      transform = (\<lambda>em ids counts rows. Inr rows),
      relationSeparateLoadOutcome = (\<lambda>h ents. None),
      broadcastOutcome = (\<lambda>h. None)\<rparr>"

definition sampleAlias :: Alias where
  "sampleAlias = \<lparr>name = ''p'', hasMetadata = True, tablePath = Some ''post'', aliasSubQuery = None\<rparr>"

definition sampleJoin :: joinAttribute where
  "sampleJoin =
     \<lparr>direction = ''LEFT'',
      joinAlias = \<lparr>name = ''c'', hasMetadata = False, tablePath = Some ''comment'', aliasSubQuery = None\<rparr>,
      joinCondition = Some ''c.postId = p.id''\<rparr>"

definition sampleMap :: expressionMap where
  "sampleMap = select ''p'' None (newExpressionMap\<lparr>mainAlias := Some sampleAlias\<rparr>)"

definition startWorld :: world where
  "startWorld = \<lparr>isTransactionActive = False, events = []\<rparr>"

text \<open>
  A connection whose driver answers a window query with one primary key and every other
  query with one row.
\<close>

definition sampleRow :: row where
  "sampleRow = [(''p_id'', JNumber 1), (''p_version'', JNumber 3)]"

definition oneRowConnection :: connection where
  "oneRowConnection =
     (sampleConnection PostgresDriver)
       \<lparr>queryOutcome := (\<lambda>h sql ps. if prefix ''SELECT DISTINCT'' sql then Inr [[(''ids_p_id'', JNumber 1)]]
                                    else Inr [sampleRow]),
        getEntityValue := (\<lambda>col e. getProp e (''p_'' @ propertyPath col))\<rparr>"

text \<open>A model with a join and a page of rows asked for, and the builder of its window query.\<close>

definition samplePagedMap :: expressionMap where
  "samplePagedMap = sampleMap\<lparr>skip := Some 3, joinAttributes := [sampleJoin]\<rparr>"

definition sampleWindowBuilder :: selectQueryBuilder where
  "sampleWindowBuilder =
     \<lparr>expressionMap =
        windowExpressionMap samplePagedMap
          [''[distinctAlias].[p_id] as '' @ [CHR 0x22] @ ''ids_p_id'' @ [CHR 0x22]] []
          ''SELECT p FROM post p LEFT JOIN comment c ON c.postId = p.id''
          [(''[p_id]'', OrderOnly ''ASC'')],
      queryRunner = True\<rparr>"

definition sampleWindowQuery :: string where
  "sampleWindowQuery =
     ''SELECT DISTINCT [distinctAlias].[p_id] as '' @ [CHR 0x22] @ ''ids_p_id'' @ [CHR 0x22]
       @ '' FROM (SELECT p FROM post p LEFT JOIN comment c ON c.postId = p.id) distinctAlias''
       @ '' ORDER BY [p_id] ASC OFFSET 3''"

definition sampleGroupedMap :: expressionMap where
  "sampleGroupedMap =
     sampleMap\<lparr>limit := Some 5, subQuery := True, groupBys := [''p.id''],
               lockMode := Some PessimisticWrite,
               havings := [\<lparr>condType = Simple, condText = ''COUNT(*) > 1''\<rparr>],
               orderBys := [(''p.id'', OrderOnly ''DESC'')]\<rparr>"

text \<open>A connection whose result cache is switched on and fails on every read.\<close>

definition failingCacheConnection :: "bool \<Rightarrow> connection" where
  "failingCacheConnection ignore =
     (sampleConnection PostgresDriver)
       \<lparr>queryResultCache := True,
        connCacheOptions := Some \<lparr>alwaysEnabled = True, ignoreErrors = ignore, duration = None\<rparr>,
        getFromCacheOutcome := (\<lambda>h i q d. Inl ''cache unreachable''),
        queryOutcome := (\<lambda>h sql ps. Inr [[(''p_id'', JNumber 1)]])\<rparr>"




section \<open>Properties\<close>

lemmas evalNum = numToString_def showNat.simps digitChar_def

lemmas evalSample =
  sampleConnection_def sampleMap_def newExpressionMap_def select_def sampleAlias_def
  sampleMetadata_def sampleJoin_def startWorld_def

subsection \<open>Limit and offset\<close>

text \<open>
  Claim C3. With \<open>offset\<close> set to a positive value and \<open>limit\<close> unset, compiling the
  limit/offset clause raises the offset-without-limit error on MySQL, Aurora Data API
  and SAP; on every other dialect it returns a clause that contains \<open>OFFSET m\<close>, which
  SQLite renders as \<open>LIMIT -1 OFFSET m\<close>.
\<close>

theorem offset_without_limit:
  assumes "offset em = Some m" and "0 < m" and "limit em = None"
  shows "(driver conn \<in> {MysqlDriver, AuroraDataApiDriver, SapDriver} \<longrightarrow>
            createLimitOffsetExpression conn em = Inl OffsetWithoutLimitNotSupportedError)
       \<and> (driver conn = AbstractSqliteDriver \<longrightarrow>
            createLimitOffsetExpression conn em = Inr ('' LIMIT -1 OFFSET '' @ numToString m))
       \<and> (driver conn = OracleDriver \<longrightarrow>
            createLimitOffsetExpression conn em = Inr ('' OFFSET '' @ numToString m @ '' ROWS''))
       \<and> (driver conn = SqlServerDriver \<longrightarrow>
            createLimitOffsetExpression conn em =
              Inr ((if allOrderBys conn em = [] then '' ORDER BY (SELECT NULL)'' else [])
                   @ '' OFFSET '' @ numToString m @ '' ROWS''))
       \<and> (driver conn \<in> {PostgresDriver, CockroachDriver, OtherDriver} \<longrightarrow>
            createLimitOffsetExpression conn em = Inr ('' OFFSET '' @ numToString m))
       \<and> (driver conn \<notin> {MysqlDriver, AuroraDataApiDriver, SapDriver} \<longrightarrow>
            (\<exists>s. createLimitOffsetExpression conn em = Inr s \<and> sublist ('' OFFSET '' @ numToString m) s))"
proof -
  have family: "driver conn \<in> {MysqlDriver, AuroraDataApiDriver, SapDriver} \<longrightarrow>
            createLimitOffsetExpression conn em = Inl OffsetWithoutLimitNotSupportedError"
    using assms by (auto simp add: createLimitOffsetExpression_def)
  have lite: "driver conn = AbstractSqliteDriver \<longrightarrow>
            createLimitOffsetExpression conn em = Inr ('' LIMIT -1 OFFSET '' @ numToString m)"
    using assms by (simp add: createLimitOffsetExpression_def)
  have ora: "driver conn = OracleDriver \<longrightarrow>
            createLimitOffsetExpression conn em = Inr ('' OFFSET '' @ numToString m @ '' ROWS'')"
    using assms by (simp add: createLimitOffsetExpression_def)
  have mssql: "driver conn = SqlServerDriver \<longrightarrow>
            createLimitOffsetExpression conn em =
              Inr ((if allOrderBys conn em = [] then '' ORDER BY (SELECT NULL)'' else [])
                   @ '' OFFSET '' @ numToString m @ '' ROWS'')"
    using assms by (simp add: createLimitOffsetExpression_def)
  have plain: "driver conn \<in> {PostgresDriver, CockroachDriver, OtherDriver} \<longrightarrow>
            createLimitOffsetExpression conn em = Inr ('' OFFSET '' @ numToString m)"
    using assms by (auto simp add: createLimitOffsetExpression_def)
  have sub: "sublist ('' OFFSET '' @ numToString m) (p @ ('' OFFSET '' @ numToString m) @ q)" for p q
    by (rule sublist_appendI)
  have contains: "driver conn \<notin> {MysqlDriver, AuroraDataApiDriver, SapDriver} \<longrightarrow>
            (\<exists>s. createLimitOffsetExpression conn em = Inr s \<and> sublist ('' OFFSET '' @ numToString m) s)"
  proof
    assume nm: "driver conn \<notin> {MysqlDriver, AuroraDataApiDriver, SapDriver}"
    show "\<exists>s. createLimitOffsetExpression conn em = Inr s \<and> sublist ('' OFFSET '' @ numToString m) s"
    proof (cases "driver conn")
      case SqlServerDriver
      with mssql sub[of "if allOrderBys conn em = [] then '' ORDER BY (SELECT NULL)'' else []" "'' ROWS''"]
      show ?thesis by simp
    next
      case AbstractSqliteDriver
      with lite sub[of "'' LIMIT -1''" "[]"] show ?thesis by simp
    next
      case OracleDriver
      with ora sub[of "[]" "'' ROWS''"] show ?thesis by simp
    next
      case PostgresDriver
      with plain sub[of "[]" "[]"] show ?thesis by simp
    next
      case CockroachDriver
      with plain sub[of "[]" "[]"] show ?thesis by simp
    next
      case OtherDriver
      with plain sub[of "[]" "[]"] show ?thesis by simp
    qed (use nm in simp_all)
  qed
  from family lite ora mssql plain contains show ?thesis by blast
qed

theorem offset_without_limit_witness:
  "createLimitOffsetExpression (sampleConnection MysqlDriver) (sampleMap\<lparr>offset := Some 7\<rparr>)
     = Inl OffsetWithoutLimitNotSupportedError
   \<and> createLimitOffsetExpression (sampleConnection AbstractSqliteDriver) (sampleMap\<lparr>offset := Some 7\<rparr>)
     = Inr '' LIMIT -1 OFFSET 7''"
proof -
  have h: "offset (sampleMap\<lparr>offset := Some 7\<rparr>) = Some 7" "(0::int) < 7"
          "limit (sampleMap\<lparr>offset := Some 7\<rparr>) = None"
    by (simp_all add: evalSample)
  have n: "numToString 7 = ''7''" by (simp add: evalNum)
  from offset_without_limit[OF h, of "sampleConnection MysqlDriver"]
       offset_without_limit[OF h, of "sampleConnection AbstractSqliteDriver"] n
  show ?thesis by (simp add: sampleConnection_def)
qed

text \<open>
  Claim C4, as stated: for every dialect, \<open>limit = 5, offset = 0\<close> compiles to the same
  clause as \<open>limit = 5\<close> with \<open>offset\<close> unset, and no \<open>OFFSET 0\<close> is ever emitted. On SQL
  Server the second half fails: the clause is \<open>OFFSET 0 ROWS FETCH NEXT 5 ROWS ONLY\<close>.
\<close>

theorem offset_zero_emitted_on_sqlserver:
  "createLimitOffsetExpression (sampleConnection SqlServerDriver)
      (sampleMap\<lparr>limit := Some 5, offset := Some 0\<rparr>)
     = Inr '' ORDER BY (SELECT NULL) OFFSET 0 ROWS FETCH NEXT 5 ROWS ONLY''
   \<and> sublist ''OFFSET 0'' '' ORDER BY (SELECT NULL) OFFSET 0 ROWS FETCH NEXT 5 ROWS ONLY''"
  by (simp add: createLimitOffsetExpression_def allOrderBys_def evalSample evalNum sublist_code)

text \<open>
  Claim C4, amended: for every dialect, \<open>limit = 5, offset = 0\<close> compiles to the same
  clause as \<open>limit = 5\<close> with \<open>offset\<close> unset; the clause holds no \<open>OFFSET\<close> at all on
  every dialect but SQL Server, where both models compile to
  \<open>OFFSET 0 ROWS FETCH NEXT 5 ROWS ONLY\<close>, after the dummy ordering if the model has none.
\<close>

theorem offset_zero_same_clause:
  "createLimitOffsetExpression conn (em\<lparr>limit := Some 5, offset := Some 0\<rparr>)
     = createLimitOffsetExpression conn (em\<lparr>limit := Some 5, offset := None\<rparr>)
   \<and> (driver conn \<noteq> SqlServerDriver \<longrightarrow>
        (\<exists>s. createLimitOffsetExpression conn (em\<lparr>limit := Some 5, offset := Some 0\<rparr>) = Inr s
             \<and> \<not> sublist ''OFFSET'' s))
   \<and> (driver conn = SqlServerDriver \<longrightarrow>
        createLimitOffsetExpression conn (em\<lparr>limit := Some 5, offset := Some 0\<rparr>)
          = Inr ((if allOrderBys conn em = [] then '' ORDER BY (SELECT NULL)'' else [])
                 @ '' OFFSET 0 ROWS FETCH NEXT 5 ROWS ONLY''))"
proof -
  have five: "numToString 5 = ''5''" by (simp add: evalNum)
  have same: "createLimitOffsetExpression conn (em\<lparr>limit := Some 5, offset := Some 0\<rparr>)
    = createLimitOffsetExpression conn (em\<lparr>limit := Some 5, offset := None\<rparr>)"
    by (simp add: createLimitOffsetExpression_def allOrderBys_def Let_def)
  have mssql: "driver conn = SqlServerDriver \<longrightarrow>
        createLimitOffsetExpression conn (em\<lparr>limit := Some 5, offset := Some 0\<rparr>)
          = Inr ((if allOrderBys conn em = [] then '' ORDER BY (SELECT NULL)'' else [])
                 @ '' OFFSET 0 ROWS FETCH NEXT 5 ROWS ONLY'')"
    by (simp add: createLimitOffsetExpression_def allOrderBys_def Let_def five)
  have rest: "driver conn \<noteq> SqlServerDriver \<longrightarrow>
        (\<exists>s. createLimitOffsetExpression conn (em\<lparr>limit := Some 5, offset := Some 0\<rparr>) = Inr s
             \<and> \<not> sublist ''OFFSET'' s)"
    by (cases "driver conn")
       (simp_all add: createLimitOffsetExpression_def Let_def five sublist_code)
  from same mssql rest show ?thesis by blast
qed

theorem offset_zero_same_clause_witness:
  "createLimitOffsetExpression (sampleConnection OracleDriver) (sampleMap\<lparr>limit := Some 5, offset := Some 0\<rparr>)
     = createLimitOffsetExpression (sampleConnection OracleDriver) (sampleMap\<lparr>limit := Some 5, offset := None\<rparr>)
   \<and> createLimitOffsetExpression (sampleConnection OracleDriver) (sampleMap\<lparr>limit := Some 5, offset := Some 0\<rparr>)
     = Inr '' FETCH NEXT 5 ROWS ONLY''
   \<and> createLimitOffsetExpression (sampleConnection SqlServerDriver) (sampleMap\<lparr>limit := Some 5, offset := None\<rparr>)
     = Inr '' ORDER BY (SELECT NULL) OFFSET 0 ROWS FETCH NEXT 5 ROWS ONLY''"
proof -
  have ora: "createLimitOffsetExpression (sampleConnection OracleDriver)
               (sampleMap\<lparr>limit := Some 5, offset := Some 0\<rparr>) = Inr '' FETCH NEXT 5 ROWS ONLY''"
    by (simp add: createLimitOffsetExpression_def evalSample evalNum)
  have none: "allOrderBys (sampleConnection SqlServerDriver) sampleMap = []"
    by (simp add: allOrderBys_def evalSample)
  have drv: "driver (sampleConnection OracleDriver) = OracleDriver"
            "driver (sampleConnection SqlServerDriver) = SqlServerDriver"
    by (simp_all add: sampleConnection_def)
  note oracleCase = offset_zero_same_clause[of "sampleConnection OracleDriver" sampleMap]
  note serverCase = offset_zero_same_clause[of "sampleConnection SqlServerDriver" sampleMap]
  from oracleCase have first:
    "createLimitOffsetExpression (sampleConnection OracleDriver) (sampleMap\<lparr>limit := Some 5, offset := Some 0\<rparr>)
       = createLimitOffsetExpression (sampleConnection OracleDriver) (sampleMap\<lparr>limit := Some 5, offset := None\<rparr>)"
    by blast
  from serverCase have same:
    "createLimitOffsetExpression (sampleConnection SqlServerDriver) (sampleMap\<lparr>limit := Some 5, offset := None\<rparr>)
       = createLimitOffsetExpression (sampleConnection SqlServerDriver) (sampleMap\<lparr>limit := Some 5, offset := Some 0\<rparr>)"
    by simp
  from serverCase drv have
    "createLimitOffsetExpression (sampleConnection SqlServerDriver) (sampleMap\<lparr>limit := Some 5, offset := Some 0\<rparr>)
       = Inr ((if allOrderBys (sampleConnection SqlServerDriver) sampleMap = [] then '' ORDER BY (SELECT NULL)'' else [])
                 @ '' OFFSET 0 ROWS FETCH NEXT 5 ROWS ONLY'')"
    by blast
  with none same have third:
    "createLimitOffsetExpression (sampleConnection SqlServerDriver) (sampleMap\<lparr>limit := Some 5, offset := None\<rparr>)
       = Inr '' ORDER BY (SELECT NULL) OFFSET 0 ROWS FETCH NEXT 5 ROWS ONLY''"
    by simp
  from first ora third show ?thesis by blast
qed

subsection \<open>Locks\<close>

text \<open>
  Claim C6. With the lock mode \<open>optimistic\<close>, each of \<open>getRawMany\<close>, \<open>getMany\<close>,
  \<open>getCount\<close> and \<open>getManyAndCount\<close> throws \<open>OptimisticLockCanNotBeUsedError\<close> and
  leaves the runner as it was: no runner is created, no transaction started, no query
  dispatched.
\<close>

theorem optimistic_lock_can_not_be_used:
  assumes "lockMode (expressionMap qb) = Some Optimistic"
  shows "getRawMany conn qb w = (Inl OptimisticLockCanNotBeUsedError, w)
       \<and> getMany conn qb w = (Inl OptimisticLockCanNotBeUsedError, w)
       \<and> getCount conn qb w = (Inl OptimisticLockCanNotBeUsedError, w)
       \<and> getManyAndCount conn qb w = (Inl OptimisticLockCanNotBeUsedError, w)"
  using assms by (simp add: getRawMany_def getMany_def getCount_def getManyAndCount_def)

theorem optimistic_lock_can_not_be_used_witness:
  "getRawMany (sampleConnection PostgresDriver)
      \<lparr>expressionMap = sampleMap\<lparr>lockMode := Some Optimistic\<rparr>, queryRunner = False\<rparr> startWorld
     = (Inl OptimisticLockCanNotBeUsedError, startWorld)
   \<and> getMany (sampleConnection PostgresDriver)
      \<lparr>expressionMap = sampleMap\<lparr>lockMode := Some Optimistic\<rparr>, queryRunner = False\<rparr> startWorld
     = (Inl OptimisticLockCanNotBeUsedError, startWorld)
   \<and> getCount (sampleConnection PostgresDriver)
      \<lparr>expressionMap = sampleMap\<lparr>lockMode := Some Optimistic\<rparr>, queryRunner = False\<rparr> startWorld
     = (Inl OptimisticLockCanNotBeUsedError, startWorld)
   \<and> getManyAndCount (sampleConnection PostgresDriver)
      \<lparr>expressionMap = sampleMap\<lparr>lockMode := Some Optimistic\<rparr>, queryRunner = False\<rparr> startWorld
     = (Inl OptimisticLockCanNotBeUsedError, startWorld)"
  using optimistic_lock_can_not_be_used
          [of "\<lparr>expressionMap = sampleMap\<lparr>lockMode := Some Optimistic\<rparr>, queryRunner = False\<rparr>"
              "sampleConnection PostgresDriver" startWorld]
  by simp

text \<open>
  Claim C7. On a model with a main alias whose lock mode is one of the five pessimistic
  variants, \<open>executeEntitiesAndRawResults\<close> with a runner that has no active transaction
  throws \<open>PessimisticLockTransactionRequiredError\<close> and leaves the runner as it was; so
  does \<open>getRawAndEntities\<close> on a builder that was given this runner and did not ask for a
  transaction of its own.
\<close>

theorem pessimistic_lock_requires_transaction:
  assumes "mainAlias (expressionMap qb) = Some ma"
    and "lockMode (expressionMap qb) \<in>
           {Some PessimisticRead, Some PessimisticWrite, Some PessimisticPartialWrite,
            Some PessimisticWriteOrFail, Some ForNoKeyUpdate}"
    and "\<not> isTransactionActive w"
  shows "executeEntitiesAndRawResults conn (expressionMap qb) w
           = (Inl PessimisticLockTransactionRequiredError, w)
       \<and> (queryRunner qb \<and> \<not> useTransaction (expressionMap qb) \<longrightarrow>
            getRawAndEntities conn qb w = (Inl PessimisticLockTransactionRequiredError, w))"
proof -
  have direct: "executeEntitiesAndRawResults conn ((expressionMap qb)\<lparr>queryEntity := b\<rparr>) w
           = (Inl PessimisticLockTransactionRequiredError, w)" for b
    using assms
    by (auto simp add: executeEntitiesAndRawResults_def prepareExecution_def isPessimistic_def)
  have plain: "executeEntitiesAndRawResults conn (expressionMap qb) w
           = (Inl PessimisticLockTransactionRequiredError, w)"
    using assms
    by (auto simp add: executeEntitiesAndRawResults_def prepareExecution_def isPessimistic_def)
  have fetch: "queryRunner qb \<and> \<not> useTransaction (expressionMap qb) \<longrightarrow>
            getRawAndEntities conn qb w = (Inl PessimisticLockTransactionRequiredError, w)"
    using direct[of True]
    by (simp add: getRawAndEntities_def inRunner_def tryBlock_def obtainQueryRunner_def
                  rollbackIfStarted_def)
  from plain fetch show ?thesis by blast
qed

theorem pessimistic_lock_requires_transaction_witness:
  "executeEntitiesAndRawResults (sampleConnection PostgresDriver)
     (sampleMap\<lparr>lockMode := Some PessimisticWrite\<rparr>) startWorld
     = (Inl PessimisticLockTransactionRequiredError, startWorld)
   \<and> getRawAndEntities (sampleConnection PostgresDriver)
       \<lparr>expressionMap = sampleMap\<lparr>lockMode := Some PessimisticWrite\<rparr>, queryRunner = True\<rparr> startWorld
     = (Inl PessimisticLockTransactionRequiredError, startWorld)"
proof -
  let ?qb = "\<lparr>expressionMap = sampleMap\<lparr>lockMode := Some PessimisticWrite\<rparr>, queryRunner = True\<rparr>"
  have a: "mainAlias (expressionMap ?qb) = Some sampleAlias"
    by (simp add: sampleMap_def newExpressionMap_def select_def)
  have b: "lockMode (expressionMap ?qb)
             \<in> {Some PessimisticRead, Some PessimisticWrite, Some PessimisticPartialWrite,
                 Some PessimisticWriteOrFail, Some ForNoKeyUpdate}" by simp
  have c: "\<not> isTransactionActive startWorld" by (simp add: startWorld_def)
  have d: "queryRunner ?qb \<and> \<not> useTransaction (expressionMap ?qb)"
    by (simp add: sampleMap_def newExpressionMap_def select_def)
  from pessimistic_lock_requires_transaction[OF a b c, of "sampleConnection PostgresDriver"] d
  show ?thesis by simp
qed

subsection \<open>HAVING\<close>

text \<open>\<open>having\<close> appends to the conditions it finds; it never removes one.\<close>

lemma having_appends:
  "havings (having h ps em) = havings em @ [\<lparr>condType = Simple, condText = h\<rparr>]"
  by (cases ps) (simp_all add: having_def setParameters_def)

text \<open>
  Claim C8 says that a condition of type \<open>simple\<close> appears only first in \<open>havings\<close>. The
  code breaks it: two calls of \<open>having\<close> leave two simple conditions, and the compiled
  clause joins them with no combinator.
\<close>

theorem having_twice_keeps_both:
  "havings (having ''b'' None (having ''a'' None newExpressionMap))
     = [\<lparr>condType = Simple, condText = ''a''\<rparr>, \<lparr>condType = Simple, condText = ''b''\<rparr>]
   \<and> createHavingExpression (sampleConnection PostgresDriver)
        (having ''b'' None (having ''a'' None newExpressionMap)) = '' HAVING a b''"
  by (simp add: having_def newExpressionMap_def createHavingExpression_def sampleConnection_def
                enumerate_eq_zip upt_rec)

subsection \<open>The count expression\<close>




subsection \<open>The order of the clauses\<close>

text \<open>\<open>trim\<close> removes white space at both ends and nothing else.\<close>

lemma trim_decompose:
  "\<exists>pre post. s = pre @ trim s @ post \<and> list_all isWhiteSpace pre \<and> list_all isWhiteSpace post"
proof -
  let ?d = "dropWhile isWhiteSpace s"
  have a: "s = takeWhile isWhiteSpace s @ ?d" by simp
  have "rev (takeWhile isWhiteSpace (rev ?d) @ dropWhile isWhiteSpace (rev ?d)) = rev (rev ?d)"
    by (simp only: takeWhile_dropWhile_id)
  then have "rev (dropWhile isWhiteSpace (rev ?d)) @ rev (takeWhile isWhiteSpace (rev ?d)) = ?d"
    by (simp only: rev_append rev_rev_ident)
  then have b: "?d = trim s @ rev (takeWhile isWhiteSpace (rev ?d))"
    by (simp only: trim_def)
  have c: "list_all isWhiteSpace (takeWhile isWhiteSpace s)"
    by (simp add: list_all_iff) (meson set_takeWhileD)
  have d: "list_all isWhiteSpace (rev (takeWhile isWhiteSpace (rev ?d)))"
    by (simp add: list_all_iff) (meson set_takeWhileD)
  from a b have "s = takeWhile isWhiteSpace s @ trim s @ rev (takeWhile isWhiteSpace (rev ?d))"
    by simp
  with c d show ?thesis by blast
qed

lemma trim_ends:
  assumes "trim s \<noteq> []"
  shows "\<not> isWhiteSpace (hd (trim s)) \<and> \<not> isWhiteSpace (last (trim s))"
proof -
  let ?d = "dropWhile isWhiteSpace s"
  let ?r = "dropWhile isWhiteSpace (rev ?d)"
  from assms have rne: "?r \<noteq> []" by (simp add: trim_def)
  have dne: "?d \<noteq> []"
  proof
    assume empty: "?d = []"
    have "?r = []" by (simp only: empty rev.simps dropWhile.simps)
    with rne show False by simp
  qed
  have "last (trim s) = hd ?r" using rne by (simp add: trim_def last_rev)
  moreover have "\<not> isWhiteSpace (hd ?r)" using rne by (rule hd_dropWhile)
  ultimately have l: "\<not> isWhiteSpace (last (trim s))" by simp
  have "hd (trim s) = last ?r" using rne by (simp add: trim_def hd_rev)
  also have "\<dots> = last (rev ?d)"
  proof -
    have "rev ?d = takeWhile isWhiteSpace (rev ?d) @ ?r" by simp
    then have "last (rev ?d) = last (takeWhile isWhiteSpace (rev ?d) @ ?r)" by simp
    also have "\<dots> = last ?r" using rne by (rule last_appendR)
    finally show ?thesis by simp
  qed
  also have "\<dots> = hd ?d" using dne by (simp add: last_rev)
  finally have "hd (trim s) = hd ?d" .
  moreover have "\<not> isWhiteSpace (hd ?d)" using dne by (rule hd_dropWhile)
  ultimately have h: "\<not> isWhiteSpace (hd (trim s))" by simp
  from h l show ?thesis by blast
qed

text \<open>
  Claim C5. When \<open>getQuery\<close> compiles a model, every clause compiler returned, and the
  text is the concatenation of comment, SELECT, JOIN, WHERE, GROUP BY, HAVING, ORDER BY,
  LIMIT/OFFSET and LOCK in this order, with the white space at both ends removed, and in
  parentheses exactly when the model is a sub-query.
\<close>

theorem getQuery_clause_order:
  assumes "getQuery conn em = Inr q"
  shows "\<exists>sel jn wh lim lck.
           createSelectExpression conn em = Inr sel
         \<and> createJoinExpression conn em = Inr jn
         \<and> createWhereExpression conn em = Inr wh
         \<and> createLimitOffsetExpression conn em = Inr lim
         \<and> createLockExpression conn em = Inr lck
         \<and> (let sql = createComment conn em @ sel @ jn @ wh @ createGroupByExpression conn em
                        @ createHavingExpression conn em @ createOrderByExpression conn em @ lim @ lck
            in q = (if subQuery em then ''('' @ trim sql @ '')'' else trim sql)
             \<and> (\<exists>pre post. sql = pre @ trim sql @ post
                    \<and> list_all isWhiteSpace pre \<and> list_all isWhiteSpace post)
             \<and> (trim sql \<noteq> [] \<longrightarrow> \<not> isWhiteSpace (hd (trim sql)) \<and> \<not> isWhiteSpace (last (trim sql))))"
proof -
  from assms obtain sel where sel: "createSelectExpression conn em = Inr sel"
    by (cases "createSelectExpression conn em") (simp_all add: getQuery_def thenE_def)
  from assms sel obtain jn where jn: "createJoinExpression conn em = Inr jn"
    by (cases "createJoinExpression conn em") (simp_all add: getQuery_def thenE_def fromCollaborator_def)
  from assms sel jn obtain wh where wh: "createWhereExpression conn em = Inr wh"
    by (cases "createWhereExpression conn em") (simp_all add: getQuery_def thenE_def fromCollaborator_def)
  from assms sel jn wh obtain lim where lim: "createLimitOffsetExpression conn em = Inr lim"
    by (cases "createLimitOffsetExpression conn em")
       (simp_all add: getQuery_def thenE_def fromCollaborator_def)
  from assms sel jn wh lim obtain lck where lck: "createLockExpression conn em = Inr lck"
    by (cases "createLockExpression conn em")
       (simp_all add: getQuery_def thenE_def fromCollaborator_def)
  let ?sql = "createComment conn em @ sel @ jn @ wh @ createGroupByExpression conn em
                @ createHavingExpression conn em @ createOrderByExpression conn em @ lim @ lck"
  from assms sel jn wh lim lck
  have q: "q = (if subQuery em then ''('' @ trim ?sql @ '')'' else trim ?sql)"
    by (auto simp add: getQuery_def thenE_def fromCollaborator_def Let_def split: if_splits)
  from q trim_decompose[of ?sql] trim_ends[of ?sql] sel jn wh lim lck
  show ?thesis by (simp add: Let_def)
qed

theorem getQuery_clause_order_witness:
  "getQuery (sampleConnection PostgresDriver) sampleGroupedMap
     = Inr ''(SELECT p FROM post p GROUP BY p.id HAVING COUNT(*) > 1 ORDER BY p.id DESC LIMIT 5 FOR UPDATE)''
   \<and> (\<exists>sel jn wh lim lck.
         createSelectExpression (sampleConnection PostgresDriver) sampleGroupedMap = Inr sel
       \<and> createJoinExpression (sampleConnection PostgresDriver) sampleGroupedMap = Inr jn
       \<and> createWhereExpression (sampleConnection PostgresDriver) sampleGroupedMap = Inr wh
       \<and> createLimitOffsetExpression (sampleConnection PostgresDriver) sampleGroupedMap = Inr lim
       \<and> createLockExpression (sampleConnection PostgresDriver) sampleGroupedMap = Inr lck
       \<and> ''(SELECT p FROM post p GROUP BY p.id HAVING COUNT(*) > 1 ORDER BY p.id DESC LIMIT 5 FOR UPDATE)''
           = ''('' @ trim (createComment (sampleConnection PostgresDriver) sampleGroupedMap @ sel @ jn @ wh
                           @ createGroupByExpression (sampleConnection PostgresDriver) sampleGroupedMap
                           @ createHavingExpression (sampleConnection PostgresDriver) sampleGroupedMap
                           @ createOrderByExpression (sampleConnection PostgresDriver) sampleGroupedMap
                           @ lim @ lck) @ '')'')"
proof -
  have g: "getQuery (sampleConnection PostgresDriver) sampleGroupedMap
     = Inr ''(SELECT p FROM post p GROUP BY p.id HAVING COUNT(*) > 1 ORDER BY p.id DESC LIMIT 5 FOR UPDATE)''"
    by (simp add: getQuery_def sampleGroupedMap_def evalSample evalNum thenE_def fromCollaborator_def
          createSelectExpression_def createGroupByExpression_def createHavingExpression_def
          createOrderByExpression_def allOrderBys_def createLimitOffsetExpression_def
          createLockExpression_def trim_def isWhiteSpace_def enumerate_eq_zip upt_rec)
  have sq: "subQuery sampleGroupedMap" by (simp add: sampleGroupedMap_def)
  from getQuery_clause_order[OF g] sq g show ?thesis
    by (simp only: Let_def if_True) blast
qed

subsection \<open>Evaluating the model\<close>

lemmas evalCompile =
  getQueryAndParameters_def getQuery_def thenE_def fromCollaborator_def createSelectExpression_def
  createGroupByExpression_def createHavingExpression_def createOrderByExpression_def allOrderBys_def
  createLimitOffsetExpression_def createLockExpression_def trim_def isWhiteSpace_def

lemmas evalRun =
  loadRawResults_def runQuery_def collaborate_def emit_def inRunner_def tryBlock_def
  obtainQueryRunner_def rollbackIfStarted_def andThen_def ret_def pureE_def failing_def
  hydrate_def prepareExecution_def transformRelationMetadata_def isPessimistic_def

subsection \<open>The result cache\<close>

text \<open>
  Claim C9. With the result cache in use, an error raised while reading from the cache
  (by the lookup, the expiry test or the parsing of the stored rows) propagates only if
  errors are not ignored; if they are, the driver query runs on the runner as the failed
  read left it and its outcome is returned, with no attempt to store. An error raised
  while storing propagates only if errors are not ignored; if they are, the rows of the
  driver are returned.
\<close>

theorem cache_errors:
  assumes compiled: "getQueryAndParameters conn em = Inr (sql, ps)"
    and opts: "opts = (case connCacheOptions conn of
                         Some given \<Rightarrow> given
                       | None \<Rightarrow> \<lparr>alwaysEnabled = False, ignoreErrors = False, duration = None\<rparr>)"
    and active: "queryResultCache conn \<and> (cache em \<or> alwaysEnabled opts)"
    and queryId: "queryId = sql @ '' -- PARAMETERS: '' @ stringifyParameters conn ps"
    and dur: "dur = cacheDurationOf em opts"
  shows "(\<forall>e w1. readFromCache conn em queryId dur w = (Inl e, w1) \<longrightarrow>
            loadRawResults conn em w
              = (if ignoreErrors opts then runQuery conn sql ps w1 else (Inl e, w1)))
       \<and> (\<forall>saved w1 records w2 e w3.
            readFromCache conn em queryId dur w = (Inr (CacheMiss saved False), w1)
            \<and> runQuery conn sql ps w1 = (Inr records, w2)
            \<and> storeInCache conn em queryId dur (stringifyRecords conn records) saved w2 = (Inl e, w3) \<longrightarrow>
            loadRawResults conn em w
              = (if ignoreErrors opts then (Inr records, w3) else (Inl e, w3)))
       \<and> (\<forall>m. getFromCacheOutcome conn (events w) (cacheId em) queryId dur = Inl m \<longrightarrow>
            readFromCache conn em queryId dur w
              = (Inl (CollaboratorError m), emit (GetFromCache (cacheId em) queryId dur) w))"
proof -
  have rd: "loadRawResults conn em w
              = (if ignoreErrors opts then runQuery conn sql ps w1 else (Inl e, w1))"
    if "readFromCache conn em queryId dur w = (Inl e, w1)" for e w1
    using that assms
    by (auto simp add: loadRawResults_def Let_def split: prod.splits sum.splits)
  have st: "loadRawResults conn em w
              = (if ignoreErrors opts then (Inr records, w3) else (Inl e, w3))"
    if "readFromCache conn em queryId dur w = (Inr (CacheMiss saved False), w1)"
       "runQuery conn sql ps w1 = (Inr records, w2)"
       "storeInCache conn em queryId dur (stringifyRecords conn records) saved w2 = (Inl e, w3)"
    for saved w1 records w2 e w3
    using that assms
    by (auto simp add: loadRawResults_def Let_def split: prod.splits sum.splits)
  have gf: "readFromCache conn em queryId dur w
              = (Inl (CollaboratorError m), emit (GetFromCache (cacheId em) queryId dur) w)"
    if "getFromCacheOutcome conn (events w) (cacheId em) queryId dur = Inl m" for m
    using that
    by (simp add: readFromCache_def andThen_def collaborate_def fromCollaborator_def)
  from rd st gf show ?thesis by blast
qed

theorem cache_errors_witness:
  "loadRawResults (failingCacheConnection True) sampleMap startWorld
     = (Inr [[(''p_id'', JNumber 1)]],
        \<lparr>isTransactionActive = False,
         events = [GetFromCache None ''SELECT p FROM post p -- PARAMETERS: '' 1000,
                   Query ''SELECT p FROM post p'' []]\<rparr>)
   \<and> loadRawResults (failingCacheConnection False) sampleMap startWorld
     = (Inl (CollaboratorError ''cache unreachable''),
        \<lparr>isTransactionActive = False,
         events = [GetFromCache None ''SELECT p FROM post p -- PARAMETERS: '' 1000]\<rparr>)"
proof -
  let ?qid = "''SELECT p FROM post p -- PARAMETERS: ''"
  have compiled: "getQueryAndParameters (failingCacheConnection b) sampleMap
                    = Inr (''SELECT p FROM post p'', [])" for b
    by (simp add: failingCacheConnection_def evalSample evalCompile)
  have opts: "\<lparr>alwaysEnabled = True, ignoreErrors = b, duration = None\<rparr>
               = (case connCacheOptions (failingCacheConnection b) of
                         Some given \<Rightarrow> given
                       | None \<Rightarrow> \<lparr>alwaysEnabled = False, ignoreErrors = False, duration = None\<rparr>)" for b
    by (simp add: failingCacheConnection_def)
  have active: "queryResultCache (failingCacheConnection b)
                 \<and> (cache sampleMap
                      \<or> alwaysEnabled \<lparr>alwaysEnabled = True, ignoreErrors = b, duration = None\<rparr>)" for b
    by (simp add: failingCacheConnection_def)
  have queryId: "?qid = ''SELECT p FROM post p'' @ '' -- PARAMETERS: ''
                          @ stringifyParameters (failingCacheConnection b) []" for b
    by (simp add: failingCacheConnection_def sampleConnection_def)
  have dur: "1000 = cacheDurationOf sampleMap \<lparr>alwaysEnabled = True, ignoreErrors = b, duration = None\<rparr>" for b
    by (simp add: cacheDurationOf_def orElse_def evalSample)
  have fails: "getFromCacheOutcome (failingCacheConnection b) (events startWorld) (cacheId sampleMap) ?qid 1000
                 = Inl ''cache unreachable''" for b
    by (simp add: failingCacheConnection_def)
  have noId: "cacheId sampleMap = None" by (simp add: evalSample)
  note lenient = cache_errors[OF compiled opts active queryId dur, of True startWorld]
  note strict = cache_errors[OF compiled opts active queryId dur, of False startWorld]
  from lenient fails[of True] have
    "loadRawResults (failingCacheConnection True) sampleMap startWorld
       = runQuery (failingCacheConnection True) ''SELECT p FROM post p'' []
           (emit (GetFromCache (cacheId sampleMap) ?qid 1000) startWorld)"
    by simp
  then have first: "loadRawResults (failingCacheConnection True) sampleMap startWorld
     = (Inr [[(''p_id'', JNumber 1)]],
        \<lparr>isTransactionActive = False,
         events = [GetFromCache None ?qid 1000, Query ''SELECT p FROM post p'' []]\<rparr>)"
    by (simp add: noId runQuery_def collaborate_def emit_def fromCollaborator_def startWorld_def
                  failingCacheConnection_def)
  from strict fails[of False] have
    "loadRawResults (failingCacheConnection False) sampleMap startWorld
       = (Inl (CollaboratorError ''cache unreachable''),
          emit (GetFromCache (cacheId sampleMap) ?qid 1000) startWorld)"
    by simp
  then have second: "loadRawResults (failingCacheConnection False) sampleMap startWorld
     = (Inl (CollaboratorError ''cache unreachable''),
        \<lparr>isTransactionActive = False, events = [GetFromCache None ?qid 1000]\<rparr>)"
    by (simp add: noId emit_def startWorld_def)
  from first second show ?thesis by blast
qed

subsection \<open>No step before the version check raises the version mismatch\<close>

lemma nm_Inr [simp]: "neverMismatch (Inr x)"
  by (simp add: neverMismatch_def)

lemma nm_Inl [simp]: "neverMismatch (Inl e) = (\<not> isVersionMismatch e)"
  by (simp add: neverMismatch_def)

lemma nm_simple [simp]:
  "\<not> isVersionMismatch OptimisticLockCanNotBeUsedError"
  "\<not> isVersionMismatch PessimisticLockTransactionRequiredError"
  "\<not> isVersionMismatch (NoVersionOrUpdateDateColumnError n)"
  "\<not> isVersionMismatch OffsetWithoutLimitNotSupportedError"
  "\<not> isVersionMismatch LockNotSupportedOnGivenDriverError"
  "\<not> isVersionMismatch EntityNotFoundError"
  "\<not> isVersionMismatch (TypeORMError s)"
  "\<not> isVersionMismatch TypeError"
  "\<not> isVersionMismatch (CollaboratorError s)"
  by (simp_all add: isVersionMismatch_def)

lemma nm_fromCollaborator [simp]: "neverMismatch (fromCollaborator r)"
  by (cases r) (simp_all add: fromCollaborator_def)

lemma nm_thenE: "neverMismatch r \<Longrightarrow> (\<And>x. neverMismatch (f x)) \<Longrightarrow> neverMismatch (thenE r f)"
  by (cases r) (simp_all add: thenE_def)

lemma nm_limit [simp]: "neverMismatch (createLimitOffsetExpression conn em)"
  by (simp add: createLimitOffsetExpression_def Let_def split: prod.splits)

lemma nm_lock [simp]: "neverMismatch (createLockExpression conn em)"
  by (simp add: createLockExpression_def Let_def split: option.splits lockMode.splits sum.splits)

lemma nm_select [simp]: "neverMismatch (createSelectExpression conn em)"
  by (simp add: createSelectExpression_def split: option.splits)

lemma nm_getQuery [simp]: "neverMismatch (getQuery conn em)"
  unfolding getQuery_def Let_def
  by (intro nm_thenE) simp_all

lemma nm_getQueryAndParameters [simp]: "neverMismatch (getQueryAndParameters conn em)"
  unfolding getQueryAndParameters_def by (intro nm_thenE) simp_all

lemma nm_count [simp]: "neverMismatch (computeCountExpression conn em)"
  unfolding computeCountExpression_def
  by (cases "mainAlias em") (auto intro!: nm_thenE simp add: Let_def)

lemma nm_mapE: "(\<And>x. neverMismatch (f x)) \<Longrightarrow> neverMismatch (mapE f xs)"
  by (induction xs) (auto intro!: nm_thenE)

lemma nm_target [simp]: "neverMismatch (orderCriteriaTarget conn em p c)"
  unfolding orderCriteriaTarget_def Let_def by (auto intro!: nm_thenE)

lemma nm_combined [simp]: "neverMismatch (createOrderByCombinedWithSelectExpression conn em p)"
  unfolding createOrderByCombinedWithSelectExpression_def Let_def
  by (intro nm_thenE nm_mapE) simp_all

lemma nm_window [simp]: "neverMismatch (windowQueryBuilder conn em ma)"
  unfolding windowQueryBuilder_def
  by (intro nm_thenE) (auto simp add: Let_def split: prod.splits intro!: nm_thenE)

lemma nm_ids [simp]: "neverMismatch (idsCondition conn n md rows)"
  by (simp add: idsCondition_def Let_def split: list.splits)

lemma nm_transform [simp]: "neverMismatch (transformRelationMetadata conn em)"
  unfolding transformRelationMetadata_def Let_def by (intro nm_thenE) simp_all

lemma nm_prepare [simp]: "neverMismatch (prepareExecution conn em w)"
  unfolding prepareExecution_def
  by (cases "mainAlias em") (auto intro!: nm_thenE)

lemma nm_D: "neverMismatch r \<Longrightarrow> r = Inl e \<Longrightarrow> \<not> isVersionMismatch e"
  by simp

lemmas nm_dests =
  nm_D[OF nm_fromCollaborator] nm_D[OF nm_getQuery] nm_D[OF nm_getQueryAndParameters]
  nm_D[OF nm_count] nm_D[OF nm_window] nm_D[OF nm_ids] nm_D[OF nm_transform] nm_D[OF nm_prepare]

lemma nmx_I: "(\<And>w. neverMismatch (fst (m w))) \<Longrightarrow> neverMismatchX m"
  by (simp add: neverMismatchX_def)

lemma nmx_D: "neverMismatchX m \<Longrightarrow> neverMismatch (fst (m w))"
  by (simp add: neverMismatchX_def)

lemma nmx_D2: "neverMismatchX m \<Longrightarrow> m w = (Inl e, w') \<Longrightarrow> \<not> isVersionMismatch e"
  using nmx_D[of m w] by simp

lemma nmx_collaborate [simp]: "neverMismatchX (collaborate ev f)"
  by (simp add: neverMismatchX_def collaborate_def)

lemma nmx_ret [simp]: "neverMismatchX (ret x)"
  by (simp add: neverMismatchX_def ret_def)

lemma nmx_pureE [simp]: "neverMismatch r \<Longrightarrow> neverMismatchX (pureE r)"
  by (simp add: neverMismatchX_def pureE_def)

lemma nmx_andThen: "neverMismatchX m \<Longrightarrow> (\<And>x. neverMismatchX (f x)) \<Longrightarrow> neverMismatchX (andThen m f)"
  apply (rule nmx_I)
  subgoal for w
    using nmx_D[of m w]
    by (cases "m w"; cases "fst (m w)") (auto simp add: andThen_def dest: nmx_D)
  done

lemma nmx_start [simp]: "neverMismatchX (startTransaction conn)"
  by (rule nmx_I)
     (simp add: startTransaction_def collaborate_def failing_def fromCollaborator_def
           split: option.splits)

lemma nmx_commit [simp]: "neverMismatchX (commitTransaction conn)"
  by (rule nmx_I)
     (simp add: commitTransaction_def collaborate_def failing_def fromCollaborator_def
           split: option.splits)

lemma nmx_release [simp]: "neverMismatchX (release conn)"
  by (simp add: release_def)

lemma nmx_runQuery [simp]: "neverMismatchX (runQuery conn sql ps)"
  by (simp add: runQuery_def)

lemma nmx_store [simp]: "neverMismatchX (storeInCache conn em q d r saved)"
  by (simp add: storeInCache_def)

lemma nmx_read [simp]: "neverMismatchX (readFromCache conn em q d)"
  unfolding readFromCache_def
  apply (rule nmx_andThen)
   apply simp
  apply (rule nmx_I)
  subgoal for saved w
    apply (cases saved)
     apply simp
    subgoal for entry
      by (auto split: sum.splits bool.splits dest: nm_dests)
    done
  done

lemma nmx_load [simp]: "neverMismatchX (loadRawResults conn em)"
proof (rule nmx_I)
  fix w
  show "neverMismatch (fst (loadRawResults conn em w))"
    by (auto simp add: loadRawResults_def Let_def
             split: sum.splits prod.splits cacheLookup.splits
             dest: nm_dests nmx_D2[OF nmx_read] nmx_D2[OF nmx_runQuery] nmx_D2[OF nmx_store])
qed

lemma nmx_tryBlock: "neverMismatchX body \<Longrightarrow> neverMismatchX (tryBlock conn em body)"
  by (rule nmx_I)
     (auto simp add: tryBlock_def split: sum.splits prod.splits
           dest: nmx_D2[OF nmx_start] nmx_D2[OF nmx_commit] nmx_D2)

lemma nmx_inRunner: "neverMismatchX body \<Longrightarrow> neverMismatchX (inRunner conn qb body)"
  apply (rule nmx_I)
  subgoal for w
    using nmx_D[OF nmx_tryBlock[of body conn "expressionMap qb"], of "obtainQueryRunner qb w"]
    by (auto simp add: inRunner_def split: sum.splits prod.splits dest: nmx_D2[OF nmx_release])
  done

lemma nmx_getRawMany [simp]: "neverMismatchX (getRawMany conn qb)"
  apply (rule nmx_I)
  subgoal for w
    using nmx_D[OF nmx_inRunner[OF nmx_load]]
    by (simp add: getRawMany_def Let_def)
  done

lemma nmx_paginated [simp]: "neverMismatchX (loadPaginated conn em ma)"
  apply (rule nmx_I)
  subgoal for w
    by (auto simp add: loadPaginated_def split: sum.splits prod.splits
           dest: nm_dests nmx_D2[OF nmx_getRawMany] nmx_D2[OF nmx_load] intro: nmx_D[OF nmx_load])
  done

lemma nmx_hydrate [simp]: "neverMismatchX (hydrate conn em ma rows)"
  unfolding hydrate_def
  by (intro nmx_andThen nmx_collaborate nmx_pureE nm_fromCollaborator)
     (auto intro!: nmx_andThen)

lemma nmx_execute [simp]: "neverMismatchX (executeEntitiesAndRawResults conn em)"
  apply (rule nmx_I)
  subgoal for w
    by (auto simp add: executeEntitiesAndRawResults_def split: sum.splits prod.splits
           dest: nm_dests nmx_D2[OF nmx_paginated] nmx_D2[OF nmx_load] nmx_D2[OF nmx_hydrate])
  done

lemma nmx_getRawAndEntities [simp]: "neverMismatchX (getRawAndEntities conn qb)"
  unfolding getRawAndEntities_def by (rule nmx_inRunner) simp

subsection \<open>The version check of getOne\<close>

text \<open>
  Claim C10. \<open>getOne\<close> raises \<open>OptimisticLockVersionMismatchError\<close> only when the lock
  mode is \<open>optimistic\<close>, the stored lock version is truthy and a first entity was
  returned. When the lock version is unset or the number 0, \<open>getOne\<close> returns what
  \<open>getRawAndEntities\<close> gives, the first entity or nothing, or its error; when no entity
  is found it returns nothing.
\<close>

theorem getOne_version_check:
  "(fst (getOne conn qb w) = Inl (OptimisticLockVersionMismatchError n a b) \<longrightarrow>
      lockMode (expressionMap qb) = Some Optimistic
    \<and> truthyVersion (lockVersion (expressionMap qb))
    \<and> (\<exists>results w1. getRawAndEntities conn qb w = (Inr results, w1) \<and> entities results \<noteq> []))
   \<and> (lockVersion (expressionMap qb) = None \<or> lockVersion (expressionMap qb) = Some (VersionNumber 0) \<longrightarrow>
        getOne conn qb w =
          (case getRawAndEntities conn qb w of
             (Inl e, w1) \<Rightarrow> (Inl e, w1)
           | (Inr results, w1) \<Rightarrow>
               (Inr (case entities results of [] \<Rightarrow> None | result # others \<Rightarrow> Some result), w1)))
   \<and> (\<forall>results w1. getRawAndEntities conn qb w = (Inr results, w1) \<and> entities results = [] \<longrightarrow>
        getOne conn qb w = (Inr None, w1))"
proof -
  have never: "getRawAndEntities conn qb w = (Inl e, w1) \<Longrightarrow> \<not> isVersionMismatch e" for e w1
    by (rule nmx_D2[OF nmx_getRawAndEntities])
  have mm: "isVersionMismatch (OptimisticLockVersionMismatchError n a b)"
    by (simp add: isVersionMismatch_def)
  have first: "fst (getOne conn qb w) = Inl (OptimisticLockVersionMismatchError n a b) \<longrightarrow>
      lockMode (expressionMap qb) = Some Optimistic
    \<and> truthyVersion (lockVersion (expressionMap qb))
    \<and> (\<exists>results w1. getRawAndEntities conn qb w = (Inr results, w1) \<and> entities results \<noteq> [])"
    using never mm
    by (auto simp add: getOne_def split: prod.splits sum.splits list.splits option.splits if_splits)
  have second: "lockVersion (expressionMap qb) = None \<or> lockVersion (expressionMap qb) = Some (VersionNumber 0) \<longrightarrow>
        getOne conn qb w =
          (case getRawAndEntities conn qb w of
             (Inl e, w1) \<Rightarrow> (Inl e, w1)
           | (Inr results, w1) \<Rightarrow>
               (Inr (case entities results of [] \<Rightarrow> None | result # others \<Rightarrow> Some result), w1))"
    by (auto simp add: getOne_def split: prod.splits sum.splits list.splits option.splits)
  have third: "\<forall>results w1. getRawAndEntities conn qb w = (Inr results, w1) \<and> entities results = [] \<longrightarrow>
        getOne conn qb w = (Inr None, w1)"
    by (auto simp add: getOne_def)
  from first second third show ?thesis by blast
qed

theorem getOne_version_check_witness:
  "getOne oneRowConnection
     \<lparr>expressionMap = sampleMap\<lparr>lockMode := Some Optimistic, lockVersion := Some (VersionNumber 0)\<rparr>,
      queryRunner = True\<rparr> startWorld
   = (Inr (Some sampleRow),
      \<lparr>isTransactionActive = False,
       events = [Query ''SELECT p FROM post p'' [], LoadRelationIds, LoadRelationCounts,
                 LoadRelationSeparate, Broadcast]\<rparr>)"
proof -
  let ?qb = "\<lparr>expressionMap = sampleMap\<lparr>lockMode := Some Optimistic, lockVersion := Some (VersionNumber 0)\<rparr>,
              queryRunner = True\<rparr>"
  have fetched: "getRawAndEntities oneRowConnection ?qb startWorld
     = (Inr \<lparr>entities = [sampleRow], raw = [sampleRow]\<rparr>,
        \<lparr>isTransactionActive = False,
         events = [Query ''SELECT p FROM post p'' [], LoadRelationIds, LoadRelationCounts,
                   LoadRelationSeparate, Broadcast]\<rparr>)"
    by (simp add: getRawAndEntities_def executeEntitiesAndRawResults_def
                  oneRowConnection_def sampleRow_def
                  evalSample evalCompile evalRun evalNum Let_def)
  have zero: "lockVersion (expressionMap ?qb) = None
              \<or> lockVersion (expressionMap ?qb) = Some (VersionNumber 0)"
    by simp
  from getOne_version_check[of oneRowConnection ?qb startWorld] zero
  have "getOne oneRowConnection ?qb startWorld =
          (case getRawAndEntities oneRowConnection ?qb startWorld of
             (Inl e, w1) \<Rightarrow> (Inl e, w1)
           | (Inr results, w1) \<Rightarrow>
               (Inr (case entities results of [] \<Rightarrow> None | result # others \<Rightarrow> Some result), w1))"
    by blast
  with fetched show ?thesis by simp
qed

text \<open>
  The check is live: with a stored version 2 and an entity at version 3, the fetch ends
  in the version mismatch.
\<close>

lemma getOne_mismatch_example:
  "getOne oneRowConnection
     \<lparr>expressionMap = sampleMap\<lparr>lockMode := Some Optimistic, lockVersion := Some (VersionNumber 2)\<rparr>,
      queryRunner = True\<rparr> startWorld
   = (Inl (OptimisticLockVersionMismatchError ''Post'' (JNumber 2) (JNumber 3)),
      \<lparr>isTransactionActive = False,
       events = [Query ''SELECT p FROM post p'' [], LoadRelationIds, LoadRelationCounts,
                 LoadRelationSeparate, Broadcast]\<rparr>)"
  by (simp add: getOne_def getRawAndEntities_def executeEntitiesAndRawResults_def checkVersion_def
                oneRowConnection_def sampleRow_def getProp_def
                evalSample evalCompile evalRun evalNum Let_def)

subsection \<open>Events only accumulate\<close>

lemma growing_I: "(\<And>w. prefix (events w) (events (snd (m w)))) \<Longrightarrow> growing m"
  by (simp add: growing_def)

lemma growing_D: "growing m \<Longrightarrow> prefix (events w) (events (snd (m w)))"
  by (simp add: growing_def)

lemma growing_D2: "growing m \<Longrightarrow> m w = (r, w') \<Longrightarrow> prefix (events w) (events w')"
  using growing_D[of m w] by simp

lemma growing_collaborate [simp]: "growing (collaborate ev f)"
  by (simp add: growing_def collaborate_def emit_def)

lemma growing_ret [simp]: "growing (ret x)"
  by (simp add: growing_def ret_def)

lemma growing_pureE [simp]: "growing (pureE r)"
  by (simp add: growing_def pureE_def)

lemma growing_andThen: "growing m \<Longrightarrow> (\<And>x. growing (f x)) \<Longrightarrow> growing (andThen m f)"
  apply (rule growing_I)
  subgoal for w
    apply (cases "m w")
    subgoal for r w'
      using growing_D2[of m w r w']
      apply (cases r)
       apply (simp add: andThen_def)
      subgoal for x
        using growing_D[of "f x" w']
        by (auto simp add: andThen_def intro: prefix_order.trans)
      done
    done
  done

lemma growing_start [simp]: "growing (startTransaction conn)"
  by (rule growing_I)
     (simp add: startTransaction_def collaborate_def emit_def failing_def fromCollaborator_def
           split: option.splits)

lemma growing_commit [simp]: "growing (commitTransaction conn)"
  by (rule growing_I)
     (simp add: commitTransaction_def collaborate_def emit_def failing_def fromCollaborator_def
           split: option.splits)

lemma growing_rollback [simp]: "growing (rollbackTransaction conn)"
  by (rule growing_I)
     (simp add: rollbackTransaction_def collaborate_def emit_def failing_def fromCollaborator_def
           split: option.splits)

lemma growing_release [simp]: "growing (release conn)"
  by (simp add: release_def)

lemma growing_runQuery [simp]: "growing (runQuery conn sql ps)"
  by (simp add: runQuery_def)

lemma growing_store [simp]: "growing (storeInCache conn em q d r saved)"
  by (simp add: storeInCache_def)

lemma growing_read [simp]: "growing (readFromCache conn em q d)"
  unfolding readFromCache_def
  apply (rule growing_andThen)
   apply simp
  apply (rule growing_I)
  apply (auto split: option.splits sum.splits bool.splits)
  done

lemma rollbackIfStarted_grows: "prefix (events w) (events (rollbackIfStarted conn b w))"
  using growing_D[OF growing_rollback, of w conn]
  by (simp add: rollbackIfStarted_def)

lemma growing_load [simp]: "growing (loadRawResults conn em)"
proof (rule growing_I)
  fix w
  show "prefix (events w) (events (snd (loadRawResults conn em w)))"
    by (auto simp add: loadRawResults_def Let_def
             split: sum.splits prod.splits cacheLookup.splits
             dest!: growing_D2[OF growing_read] growing_D2[OF growing_runQuery] growing_D2[OF growing_store]
             intro: prefix_order.trans)
qed

lemma growing_tryBlock:
  assumes "growing body"
  shows "growing (tryBlock conn em body)"
proof (rule growing_I)
  fix w
  note rb = rollbackIfStarted_grows[of _ conn]
  show "prefix (events w) (events (snd (tryBlock conn em body w)))"
  proof (cases "useTransaction em \<and> \<not> isTransactionActive w")
    case False
    obtain r2 w2 where b: "body w = (r2, w2)" by (cases "body w")
    from growing_D2[OF assms b] have p2: "prefix (events w) (events w2)" .
    from False b p2 rb[of w2 False] show ?thesis
      by (cases r2) (auto simp add: tryBlock_def intro: prefix_order.trans)
  next
    case True
    obtain r1 w1 where s: "startTransaction conn w = (r1, w1)" by (cases "startTransaction conn w")
    from growing_D2[OF growing_start s] have p1: "prefix (events w) (events w1)" .
    show ?thesis
    proof (cases r1)
      case (Inl e)
      with True s p1 rb[of w1 False] show ?thesis
        by (auto simp add: tryBlock_def intro: prefix_order.trans)
    next
      case (Inr u)
      obtain r2 w2 where b: "body w1 = (r2, w2)" by (cases "body w1")
      from growing_D2[OF assms b] p1 have p2: "prefix (events w) (events w2)"
        by (rule prefix_order.trans[rotated])
      show ?thesis
      proof (cases r2)
        case (Inl e)
        with True s Inr b have "snd (tryBlock conn em body w) = rollbackIfStarted conn True w2"
          by (simp add: tryBlock_def)
        with p2 rb[of w2 True] show ?thesis by (auto intro: prefix_order.trans)
      next
        case results: (Inr results)
        obtain r3 w3 where c: "commitTransaction conn w2 = (r3, w3)"
          by (cases "commitTransaction conn w2")
        from growing_D2[OF growing_commit c] p2 have p3: "prefix (events w) (events w3)"
          by (rule prefix_order.trans[rotated])
        show ?thesis
        proof (cases r3)
          case (Inl e)
          with True s Inr b results c
          have "snd (tryBlock conn em body w) = rollbackIfStarted conn True w3"
            by (simp add: tryBlock_def)
          with p3 rb[of w3 True] show ?thesis by (auto intro: prefix_order.trans)
        next
          case committed: (Inr u')
          with True s Inr b results c have "snd (tryBlock conn em body w) = w3"
            by (simp add: tryBlock_def)
          with p3 show ?thesis by simp
        qed
      qed
    qed
  qed
qed

lemma obtain_grows: "prefix (events w) (events (obtainQueryRunner qb w))"
  by (simp add: obtainQueryRunner_def emit_def)

lemma growing_inRunner:
  assumes "growing body"
  shows "growing (inRunner conn qb body)"
proof (rule growing_I)
  fix w
  obtain r w1 where t: "tryBlock conn (expressionMap qb) body (obtainQueryRunner qb w) = (r, w1)"
    by (cases "tryBlock conn (expressionMap qb) body (obtainQueryRunner qb w)")
  from growing_D2[OF growing_tryBlock[OF assms] t] obtain_grows[of w qb]
  have p1: "prefix (events w) (events w1)" by (rule prefix_order.trans[rotated])
  show "prefix (events w) (events (snd (inRunner conn qb body w)))"
  proof (cases "queryRunner qb")
    case True
    with t p1 show ?thesis by (simp add: inRunner_def)
  next
    case False
    obtain r2 w2 where rel: "release conn w1 = (r2, w2)" by (cases "release conn w1")
    from growing_D2[OF growing_release rel] p1 have p2: "prefix (events w) (events w2)"
      by (rule prefix_order.trans[rotated])
    from False t rel p2 show ?thesis by (cases r2) (simp_all add: inRunner_def)
  qed
qed

lemma growing_getRawMany [simp]: "growing (getRawMany conn qb)"
  apply (rule growing_I)
  subgoal for w
    using growing_D[OF growing_inRunner[OF growing_load]]
    by (simp add: getRawMany_def Let_def)
  done

lemma growing_hydrate [simp]: "growing (hydrate conn em ma rows)"
  unfolding hydrate_def
  by (intro growing_andThen growing_collaborate growing_pureE)
     (auto intro!: growing_andThen)

lemma prepare_keeps:
  assumes "prepareExecution conn em0 w = Inr (ma, em)"
  shows "skip em = skip em0 \<and> takeCount em = takeCount em0 \<and> joinAttributes em = joinAttributes em0
       \<and> mainAlias em0 = Some ma"
  using assms
  by (auto simp add: prepareExecution_def transformRelationMetadata_def thenE_def Let_def
           split: option.splits if_splits sum.splits)

lemma windowSelects_length:
  "length (fst (windowSelects conn n pcs obs)) = length pcs"
proof (induction pcs arbitrary: obs)
  case Nil
  show ?case by simp
next
  case (Cons a pcs)
  let ?k = "escape conn (buildAlias conn n (databaseName a))"
  let ?obs1 = "if \<not> truthyOrder (map_of obs ?k) then setOrder obs ?k (OrderOnly ''ASC'') else obs"
  from Cons.IH[of ?obs1] show ?case
    by (cases "windowSelects conn n pcs ?obs1") (simp add: Let_def)
qed

lemma windowExpressionMap_fields:
  "offset (windowExpressionMap em qs sel inner obs) = skip em"
  "limit (windowExpressionMap em qs sel inner obs) = takeCount em"
  "lockMode (windowExpressionMap em qs sel inner obs) = None"
  "\<not> useTransaction (windowExpressionMap em qs sel inner obs)"
  "joinAttributes (windowExpressionMap em qs sel inner obs) = []"
  "mainAlias (windowExpressionMap em qs sel inner obs)
     = Some \<lparr>name = ''distinctAlias'', hasMetadata = False, tablePath = None,
             aliasSubQuery = Some (''('' @ inner @ '')'')\<rparr>"
  "map selection (selects (windowExpressionMap em qs sel inner obs))
     = (''DISTINCT '' @ join '', '' qs) # (if sel = [] then [] else [sel])"
  by (simp_all add: windowExpressionMap_def setNativeParameters_def setParameters_def cacheCall_def
        orderBy_def limitCall_def offsetCall_def fromCall_def addSelect_def select_def
        newExpressionMap_def Let_def split: cacheArgument.splits option.splits)

lemma window_shape:
  assumes "windowQueryBuilder conn em ma = Inr (md, wb)"
  shows "queryRunner wb
       \<and> offset (expressionMap wb) = skip em \<and> limit (expressionMap wb) = takeCount em
       \<and> lockMode (expressionMap wb) = None \<and> \<not> useTransaction (expressionMap wb)
       \<and> joinAttributes (expressionMap wb) = []
       \<and> (\<exists>inner. getQuery conn (orderBy None em) = Inr inner
             \<and> mainAlias (expressionMap wb)
                  = Some \<lparr>name = ''distinctAlias'', hasMetadata = False, tablePath = None,
                          aliasSubQuery = Some (''('' @ inner @ '')'')\<rparr>)
       \<and> (\<exists>cols rest. length cols = length (primaryColumns md)
             \<and> map selection (selects (expressionMap wb)) = (''DISTINCT '' @ join '', '' cols) # rest)"
proof -
  from assms obtain selectString obs where
    comb: "createOrderByCombinedWithSelectExpression conn em ''distinctAlias'' = Inr (selectString, obs)"
    by (cases "createOrderByCombinedWithSelectExpression conn em ''distinctAlias''")
       (auto simp add: windowQueryBuilder_def thenE_def)
  from assms comb have meta: "metadataOf conn ma = Inr md"
    by (cases "metadataOf conn ma")
       (auto simp add: windowQueryBuilder_def thenE_def fromCollaborator_def Let_def
             split: prod.splits sum.splits)
  obtain querySelects obs1 where
    ws: "windowSelects conn (name ma) (primaryColumns md) obs = (querySelects, obs1)"
    by (cases "windowSelects conn (name ma) (primaryColumns md) obs")
  from assms comb meta ws obtain inner where
    inner: "getQuery conn (orderBy None em) = Inr inner"
    by (cases "getQuery conn (orderBy None em)")
       (auto simp add: windowQueryBuilder_def thenE_def fromCollaborator_def)
  from assms comb meta ws inner have
    wb: "wb = \<lparr>expressionMap = windowExpressionMap em querySelects selectString inner obs1,
               queryRunner = True\<rparr>"
    by (auto simp add: windowQueryBuilder_def thenE_def fromCollaborator_def)
  from windowSelects_length[of conn "name ma" "primaryColumns md" obs] ws
  have len: "length querySelects = length (primaryColumns md)" by simp
  from wb inner len show ?thesis
    by (simp add: windowExpressionMap_fields) blast
qed


subsection \<open>Pagination with joins\<close>

text \<open>
  Claim C1, as stated, covers every model in which skip or take is set. A skip of 0 is
  set and falsy: with a join, the model is then loaded by the one original query, and no
  window query runs.
\<close>

theorem skip_zero_runs_one_query:
  "skip (sampleMap\<lparr>skip := Some 0, joinAttributes := [sampleJoin]\<rparr>) = Some 0
   \<and> length (joinAttributes (sampleMap\<lparr>skip := Some 0, joinAttributes := [sampleJoin]\<rparr>)) = 1
   \<and> executeEntitiesAndRawResults oneRowConnection
        (sampleMap\<lparr>skip := Some 0, joinAttributes := [sampleJoin]\<rparr>) startWorld
      = (Inr \<lparr>entities = [sampleRow], raw = [sampleRow]\<rparr>,
         \<lparr>isTransactionActive = False,
          events = [Query ''SELECT p FROM post p LEFT JOIN comment c ON c.postId = p.id'' [],
                    LoadRelationIds, LoadRelationCounts, LoadRelationSeparate, Broadcast]\<rparr>)"
  by (simp add: executeEntitiesAndRawResults_def oneRowConnection_def sampleRow_def
                evalSample evalCompile evalRun evalNum Let_def)

text \<open>
  Claim C1, amended. Take a model that passes the checks at the head of
  \<open>executeEntitiesAndRawResults\<close>, in which skip or take is truthy (set and not 0), with
  at least one join. If the window query cannot be built, the error is returned and
  nothing is dispatched. Otherwise the window builder selects \<open>DISTINCT\<close> one column per
  primary column, with the model's skip as offset and its take as limit; its
  \<open>getRawMany\<close> runs first, so the events it leaves are a prefix of the events of the
  whole call; its error is the error of the call; and when it returns no row the call
  returns empty raw rows and empty entities on the runner as the window query left it,
  so that no second query is issued.
\<close>

theorem paginated_execution:
  assumes prep: "prepareExecution conn em0 w = Inr (ma, em)"
    and page: "truthyNum (skip em0) \<or> truthyNum (takeCount em0)"
    and joins: "joinAttributes em0 \<noteq> []"
  shows "(\<forall>e. windowQueryBuilder conn em ma = Inl e \<longrightarrow>
            executeEntitiesAndRawResults conn em0 w = (Inl e, w))
       \<and> (\<forall>md wb. windowQueryBuilder conn em ma = Inr (md, wb) \<longrightarrow>
            offset (expressionMap wb) = skip em0 \<and> limit (expressionMap wb) = takeCount em0
          \<and> (\<exists>cols rest. length cols = length (primaryColumns md)
                \<and> map selection (selects (expressionMap wb)) = (''DISTINCT '' @ join '', '' cols) # rest)
          \<and> prefix (events (snd (getRawMany conn wb w)))
                    (events (snd (executeEntitiesAndRawResults conn em0 w)))
          \<and> (\<forall>e w1. getRawMany conn wb w = (Inl e, w1) \<longrightarrow>
                executeEntitiesAndRawResults conn em0 w = (Inl e, w1))
          \<and> (\<forall>w1. getRawMany conn wb w = (Inr [], w1) \<longrightarrow>
                executeEntitiesAndRawResults conn em0 w = (Inr \<lparr>entities = [], raw = []\<rparr>, w1)))"
proof -
  from prepare_keeps[OF prep] page joins
  have paged: "(truthyNum (skip em) \<or> truthyNum (takeCount em)) \<and> length (joinAttributes em) > 0"
    and same: "skip em = skip em0" "takeCount em = takeCount em0"
    by simp_all
  have unfold: "executeEntitiesAndRawResults conn em0 w =
     (case loadPaginated conn em ma w of
        (Inl e, w1) \<Rightarrow> (Inl e, w1)
      | (Inr rawResults, w1) \<Rightarrow>
          if length rawResults > 0 then
            (case hydrate conn em ma rawResults w1 of
               (Inl e, w2) \<Rightarrow> (Inl e, w2)
             | (Inr ents, w2) \<Rightarrow> (Inr \<lparr>entities = ents, raw = rawResults\<rparr>, w2))
          else (Inr \<lparr>entities = [], raw = rawResults\<rparr>, w1))"
    using prep paged by (simp add: executeEntitiesAndRawResults_def)
  have failed: "executeEntitiesAndRawResults conn em0 w = (Inl e, w)"
    if "windowQueryBuilder conn em ma = Inl e" for e
    using that by (simp add: unfold loadPaginated_def)
  have window: "offset (expressionMap wb) = skip em0 \<and> limit (expressionMap wb) = takeCount em0
          \<and> (\<exists>cols rest. length cols = length (primaryColumns md)
                \<and> map selection (selects (expressionMap wb)) = (''DISTINCT '' @ join '', '' cols) # rest)
          \<and> prefix (events (snd (getRawMany conn wb w)))
                    (events (snd (executeEntitiesAndRawResults conn em0 w)))
          \<and> (\<forall>e w1. getRawMany conn wb w = (Inl e, w1) \<longrightarrow>
                executeEntitiesAndRawResults conn em0 w = (Inl e, w1))
          \<and> (\<forall>w1. getRawMany conn wb w = (Inr [], w1) \<longrightarrow>
                executeEntitiesAndRawResults conn em0 w = (Inr \<lparr>entities = [], raw = []\<rparr>, w1))"
    if built: "windowQueryBuilder conn em ma = Inr (md, wb)" for md wb
  proof -
    note shape = window_shape[OF built]
    obtain r w1 where first: "getRawMany conn wb w = (r, w1)" by (cases "getRawMany conn wb w")
    have pre: "prefix (events w1) (events (snd (executeEntitiesAndRawResults conn em0 w)))"
    proof (cases r)
      case (Inl e)
      with built first show ?thesis by (simp add: unfold loadPaginated_def)
    next
      case (Inr rawResults)
      show ?thesis
      proof (cases "rawResults = []")
        case True
        with Inr built first show ?thesis by (simp add: unfold loadPaginated_def)
      next
        case False
        show ?thesis
        proof (cases "idsCondition conn (name ma) md rawResults")
          case (Inl e)
          with False Inr built first show ?thesis by (simp add: unfold loadPaginated_def)
        next
          case cond: (Inr cp)
          obtain c ps where cp: "cp = (c, ps)" by (cases cp)
          let ?em2 = "setParameters ps (mergeExtraAppendedAndWhereCondition c em)"
          obtain r2 w2 where second: "loadRawResults conn ?em2 w1 = (r2, w2)"
            by (cases "loadRawResults conn ?em2 w1")
          from growing_D2[OF growing_load second] have p2: "prefix (events w1) (events w2)" .
          have lp: "loadPaginated conn em ma w = (r2, w2)"
            using False Inr built first cond cp second by (simp add: loadPaginated_def)
          show ?thesis
          proof (cases r2)
            case (Inl e)
            with lp p2 show ?thesis by (simp add: unfold)
          next
            case rows: (Inr rows2)
            show ?thesis
            proof (cases "rows2 = []")
              case True
              with rows lp p2 show ?thesis by (simp add: unfold)
            next
              case nonempty: False
              obtain r3 w3 where h: "hydrate conn em ma rows2 w2 = (r3, w3)"
                by (cases "hydrate conn em ma rows2 w2")
              from growing_D2[OF growing_hydrate h] p2 have p3: "prefix (events w1) (events w3)"
                by (rule prefix_order.trans[rotated])
              from nonempty rows lp h p3 show ?thesis by (cases r3) (simp_all add: unfold)
            qed
          qed
        qed
      qed
    qed
    have err: "executeEntitiesAndRawResults conn em0 w = (Inl e, w1')"
      if "getRawMany conn wb w = (Inl e, w1')" for e w1'
      using that built by (simp add: unfold loadPaginated_def)
    have empty: "executeEntitiesAndRawResults conn em0 w = (Inr \<lparr>entities = [], raw = []\<rparr>, w1')"
      if "getRawMany conn wb w = (Inr [], w1')" for w1'
      using that built by (simp add: unfold loadPaginated_def)
    from shape same pre first err empty show ?thesis by simp
  qed
  from failed window show ?thesis by blast
qed

theorem paginated_execution_witness:
  "(truthyNum (skip samplePagedMap) \<or> truthyNum (takeCount samplePagedMap))
   \<and> joinAttributes samplePagedMap \<noteq> []
   \<and> windowQueryBuilder (sampleConnection PostgresDriver) samplePagedMap sampleAlias
        = Inr (sampleMetadata, sampleWindowBuilder)
   \<and> getRawMany (sampleConnection PostgresDriver) sampleWindowBuilder startWorld
        = (Inr [], \<lparr>isTransactionActive = False, events = [Query sampleWindowQuery []]\<rparr>)
   \<and> executeEntitiesAndRawResults (sampleConnection PostgresDriver) samplePagedMap startWorld
        = (Inr \<lparr>entities = [], raw = []\<rparr>,
           \<lparr>isTransactionActive = False, events = [Query sampleWindowQuery []]\<rparr>)"
proof -
  let ?conn = "sampleConnection PostgresDriver"
  have prep: "prepareExecution ?conn samplePagedMap startWorld = Inr (sampleAlias, samplePagedMap)"
    by (simp add: samplePagedMap_def evalSample evalCompile evalRun)
  have page: "truthyNum (skip samplePagedMap) \<or> truthyNum (takeCount samplePagedMap)"
    by (simp add: samplePagedMap_def)
  have joins: "joinAttributes samplePagedMap \<noteq> []"
    by (simp add: samplePagedMap_def)
  have built: "windowQueryBuilder ?conn samplePagedMap sampleAlias = Inr (sampleMetadata, sampleWindowBuilder)"
    by (simp add: windowQueryBuilder_def createOrderByCombinedWithSelectExpression_def
          samplePagedMap_def sampleWindowBuilder_def evalSample evalCompile evalNum orderBy_def
          setOrder_def truthyOrder_def Let_def)
  have first: "getRawMany ?conn sampleWindowBuilder startWorld
     = (Inr [], \<lparr>isTransactionActive = False, events = [Query sampleWindowQuery []]\<rparr>)"
    by (simp add: getRawMany_def sampleWindowBuilder_def sampleWindowQuery_def
          windowExpressionMap_def samplePagedMap_def setNativeParameters_def setParameters_def
          cacheCall_def orderBy_def limitCall_def offsetCall_def fromCall_def addSelect_def
          evalSample evalCompile evalRun evalNum Let_def)
  from paginated_execution[OF prep page joins] built first
  have "executeEntitiesAndRawResults ?conn samplePagedMap startWorld
        = (Inr \<lparr>entities = [], raw = []\<rparr>,
           \<lparr>isTransactionActive = False, events = [Query sampleWindowQuery []]\<rparr>)"
    by blast
  with page joins built first show ?thesis by blast
qed

text \<open>
  When the window query returns a primary key, the second query is the original one
  restricted to that key.
\<close>

lemma paginated_two_queries_example:
  "executeEntitiesAndRawResults oneRowConnection samplePagedMap startWorld
     = (Inr \<lparr>entities = [sampleRow], raw = [sampleRow]\<rparr>,
        \<lparr>isTransactionActive = False,
         events = [Query sampleWindowQuery [],
                   Query ''SELECT p FROM post p LEFT JOIN comment c ON c.postId = p.id WHERE p.id IN (1)'' [],
                   LoadRelationIds, LoadRelationCounts, LoadRelationSeparate, Broadcast]\<rparr>)"
  by (simp add: executeEntitiesAndRawResults_def loadPaginated_def windowQueryBuilder_def
        createOrderByCombinedWithSelectExpression_def idsCondition_def isNumber_def numberText_def
        getProp_def getRawMany_def sampleWindowQuery_def mergeExtraAppendedAndWhereCondition_def
        windowExpressionMap_def samplePagedMap_def setNativeParameters_def setParameters_def
        cacheCall_def orderBy_def limitCall_def offsetCall_def fromCall_def addSelect_def
        setOrder_def truthyOrder_def oneRowConnection_def sampleRow_def
        evalSample evalCompile evalRun evalNum Let_def)


end
